theory Spec2Isabelle
  imports
    Complex_Main
    "HOL-Library.Multiset"
    "HOL-Library.Char_ord"
    "HOL-Library.List_Lexorder"
begin

section \<open>The objects of the host framework, as \<open>commands/command.py\<close> reads them\<close>

text \<open>
  The module consumes accounts, puppets and sessions of the host framework. Each is
  modelled as a record holding exactly the attributes the module reads. An attribute
  that may be missing is an option: reading an attribute of Python's \<open>None\<close> raises
  \<open>AttributeError\<close>, the one error the module can raise. Strings are compared as Python
  compares them: lexicographically by character code (\<open>Char_ord\<close>, \<open>List_Lexorder\<close>),
  so upper case sorts before lower case.
\<close>

datatype error = AttributeError

record location =
  key :: string

text \<open>A puppet may be nowhere: \<open>location = None\<close>.\<close>

record puppet =
  key :: string
  location :: "location option"

record player =
  key :: string
  name :: string
  check_permstring :: "string \<Rightarrow> bool"

text \<open>A session address is a string or a tuple whose first element is the host.\<close>

datatype address = AddrStr string | AddrTuple string int

text \<open>
  A session is associated with zero or one account: \<open>player\<close>, the attribute read by
  the sort key, is \<open>None\<close> for a session without an account, and so is \<open>get_player\<close>,
  the result of the method the loops call. A session without a puppet has
  \<open>get_puppet = None\<close>. Time stamps are Python floats, taken as reals: the module only
  subtracts them and hands the difference to \<open>utils.time_format\<close>.
\<close>

record session =
  player :: "player option"
  logged_in :: bool
  cmd_last_visible :: real
  conn_time :: real
  get_player :: "player option"
  get_puppet :: "puppet option"
  cmd_total :: int
  protocol_key :: string
  address :: address

section \<open>The table\<close>

text \<open>
  A cell of a row is one of the Python values the module puts there: a string, the
  integer \<open>cmd_total\<close>, or the address tuple itself.
\<close>

datatype cell = CellStr string | CellInt int | CellTuple string int

record PrettyTable =
  field_names :: "string list"
  rows :: "cell list list"

definition new_table :: "string list \<Rightarrow> PrettyTable" where
  "new_table names = \<lparr>field_names = names, rows = []\<rparr>"

definition add_row :: "PrettyTable \<Rightarrow> cell list \<Rightarrow> PrettyTable" where
  "add_row table row = table\<lparr>rows := rows table @ [row]\<rparr>"

section \<open>Utilities of the host and of Python\<close>

text \<open>
  The functions the module calls and does not define are parameters of the model:
  \<open>utils.crop\<close>, \<open>utils.time_format\<close>, the clock \<open>time.time\<close> (the reading of its
  \<open>k\<close>-th call during one invocation) and the rendering of a table by \<open>%s\<close>.
\<close>

record host =
  crop :: "string \<Rightarrow> nat \<Rightarrow> string"
  time_format :: "real \<Rightarrow> nat \<Rightarrow> string"
  time :: "nat \<Rightarrow> real"
  table_str :: "PrettyTable \<Rightarrow> string"

text \<open>Python's \<open>str\<close> of an integer, as \<open>%s\<close> formats \<open>nplayers\<close>.\<close>

definition digit_char :: "nat \<Rightarrow> char" where
  "digit_char d = ''0123456789'' ! d"

function str_nat :: "nat \<Rightarrow> string" where
  "str_nat n = (if n < 10 then [digit_char n] else str_nat (n div 10) @ [digit_char (n mod 10)])"
  by pat_completeness auto
termination
  by (relation "measure id") auto

definition str_int :: "int \<Rightarrow> string" where
  "str_int i = (if i < 0 then CHR ''-'' # str_nat (nat (- i)) else str_nat (nat i))"

section \<open>The MUX argument parser\<close>

text \<open>
  \<open>MuxCommand\<close> inherits \<open>parse\<close> from the host's \<open>default_cmds.MuxCommand\<close>; the module
  holds its documentation only (lines 113 to 127 of the class docstring). The
  definitions of this section are therefore written from the specification, section
  4.2, and from that docstring.
\<close>

text \<open>Modelled from the spec: the whitespace that trimming and token splitting remove
  (Python's ASCII whitespace); the specification says "trimmed of leading/trailing
  whitespace".\<close>

definition is_space :: "char \<Rightarrow> bool" where
  "is_space c = (c \<in> set [CHR '' '', CHR 0x09, CHR 0x0A, CHR 0x0B, CHR 0x0C, CHR 0x0D])"

definition lstrip :: "string \<Rightarrow> string" where
  "lstrip s = dropWhile is_space s"

definition rstrip :: "string \<Rightarrow> string" where
  "rstrip s = rev (dropWhile is_space (rev s))"

definition strip :: "string \<Rightarrow> string" where
  "strip s = rstrip (lstrip s)"

text \<open>Modelled from the spec: splitting at every occurrence of a separator, as the
  comma lists of steps 4 and 5 need; the empty string gives one empty segment.\<close>

fun split_on :: "char \<Rightarrow> string \<Rightarrow> string list" where
  "split_on sep [] = [[]]"
| "split_on sep (c # cs) =
     (if c = sep then [] # split_on sep cs
      else (case split_on sep cs of w # ws \<Rightarrow> (c # w) # ws | [] \<Rightarrow> [[c]]))"

text \<open>Modelled from the spec: the whitespace-separated tokens of step 6.\<close>

fun split_ws :: "string \<Rightarrow> string list" where
  "split_ws [] = []"
| "split_ws (c # cs) =
     (if is_space c then split_ws cs
      else (case cs of
              [] \<Rightarrow> [[c]]
            | d # _ \<Rightarrow>
                (if is_space d then [c] # split_ws cs
                 else (case split_ws cs of w # ws \<Rightarrow> (c # w) # ws | [] \<Rightarrow> [[c]]))))"

text \<open>Modelled from the spec: "lowercase-normalized switch names".\<close>

definition lower_char :: "char \<Rightarrow> char" where
  "lower_char c =
     (if CHR ''A'' \<le> c \<and> c \<le> CHR ''Z'' then char_of (of_char c + (32::nat)) else c)"

text \<open>Modelled from the spec: step 1 of section 4.2, "identify and strip all /switch
  tokens occurring before any non-switch content; collect into an ordered sequence of
  lowercase-normalized switch names (without the leading slash)". A switch token starts
  with a slash and runs to the next whitespace; it may hold several names
  (\<open>/switch/switch\<close>, as the class docstring writes the syntax). The result is the
  list of switch names and the string that is left.\<close>

function strip_switches :: "string \<Rightarrow> string list \<times> string" where
  "strip_switches s =
     (case lstrip s of
        [] \<Rightarrow> ([], [])
      | c # rest \<Rightarrow>
          (if c = CHR ''/'' then
             (let token = takeWhile (\<lambda>x. \<not> is_space x) rest;
                  (more, remaining) = strip_switches (dropWhile (\<lambda>x. \<not> is_space x) rest)
              in (map (map lower_char) (split_on (CHR ''/'') token) @ more, remaining))
           else ([], c # rest)))"
  by pat_completeness auto
termination
proof (relation "measure length")
  show "wf (measure length)" by simp
next
  fix s :: string and c rest
  assume "lstrip s = c # rest"
  then have "length rest < length (dropWhile is_space s)"
    by (simp add: lstrip_def)
  also have "\<dots> \<le> length s"
    by (rule length_dropWhile_le)
  finally have "length rest < length s" .
  moreover have "length (dropWhile (\<lambda>x. \<not> is_space x) rest) \<le> length rest"
    by (rule length_dropWhile_le)
  ultimately show "(dropWhile (\<lambda>x. \<not> is_space x) rest, s) \<in> measure length"
    by simp
qed

text \<open>The fields the parser stores on the command (class docstring, lines 115 to 124);
  \<open>rhs = None\<close> is the absent right-hand side.\<close>

record MuxCommand =
  raw :: string
  switches :: "string list"
  args :: string
  lhs :: string
  rhs :: "string option"
  lhslist :: "string list"
  rhslist :: "string list"
  arglist :: "string list"

text \<open>Modelled from the spec: steps 1 to 6 of section 4.2. \<open>args\<close> is split at the first
  \<open>=\<close>; both sides are trimmed, as the data model says of all string fields.\<close>

definition parse :: "string \<Rightarrow> MuxCommand" where
  "parse raw_args =
     (let (sw, remaining) = strip_switches raw_args;
          a = strip remaining;
          (l, r) =
            (if CHR ''='' \<in> set a
             then (strip (takeWhile (\<lambda>c. c \<noteq> CHR ''='') a),
                   Some (strip (tl (dropWhile (\<lambda>c. c \<noteq> CHR ''='') a))))
             else (a, None))
      in \<lparr>raw = raw_args,
          switches = sw,
          args = a,
          lhs = l,
          rhs = r,
          lhslist = map strip (split_on (CHR '','') l),
          rhslist = (case r of None \<Rightarrow> [] | Some x \<Rightarrow> map strip (split_on (CHR '','') x)),
          arglist = split_ws a\<rparr>)"

text \<open>A string that is empty or starts with a character that is neither a slash nor
  whitespace: on such a string step 1 finds no switch.\<close>

definition clean :: "string \<Rightarrow> bool" where
  "clean r = (case r of [] \<Rightarrow> True | c # _ \<Rightarrow> c \<noteq> CHR ''/'' \<and> \<not> is_space c)"

section \<open>The session handler and the state of the server\<close>

record sessionhandler =
  get_sessions :: "session list"
  player_count :: int

text \<open>
  \<open>outbox\<close> is the list of messages delivered so far, each with the key of the account
  it went to. \<open>msg\<close> is the command's \<open>self.msg\<close>, which sends to the invoking caller.
\<close>

record world =
  SESSIONS :: sessionhandler
  outbox :: "(string \<times> string) list"

record CmdWho =
  player :: player
  switches :: "string list"

definition msg :: "CmdWho \<Rightarrow> string \<Rightarrow> world \<Rightarrow> world" where
  "msg self string w = w\<lparr>outbox := outbox w @ [(player.key (CmdWho.player self), string)]\<rparr>"

section \<open>\<open>CmdWho.func\<close>\<close>

text \<open>
  Line 170, \<open>sorted(session_list, key=lambda o: o.player.key)\<close>. Python computes the
  key of every element first, in order, and then sorts the elements by their keys,
  keeping the order of elements with equal keys. The key of a session without an
  account raises, whether the session is logged in or not.
\<close>

fun sort_keys :: "session list \<Rightarrow> error + string list" where
  "sort_keys [] = Inr []"
| "sort_keys (ob # rest) =
     (case session.player ob of
        None \<Rightarrow> Inl AttributeError
      | Some p \<Rightarrow>
          (case sort_keys rest of
             Inl e \<Rightarrow> Inl e
           | Inr ks \<Rightarrow> Inr (player.key p # ks)))"

definition sorted_sessions :: "session list \<Rightarrow> error + session list" where
  "sorted_sessions session_list =
     (case sort_keys session_list of
        Inl e \<Rightarrow> Inl e
      | Inr ks \<Rightarrow> Inr (map snd (sort_key fst (zip ks session_list))))"

text \<open>The address cell: \<open>isinstance(address, tuple) and address[0] or address\<close>.\<close>

definition address_cell :: "address \<Rightarrow> cell" where
  "address_cell a =
     (case a of
        AddrStr s \<Rightarrow> CellStr s
      | AddrTuple h p \<Rightarrow> (if h \<noteq> [] then CellStr h else CellTuple h p))"

text \<open>Lines 196 and 216, \<open>puppet.location.key if puppet else "None"\<close>: the placeholder
  for a session without a puppet, an error for a puppet without a location.\<close>

definition puppet_location :: "puppet option \<Rightarrow> error + string" where
  "puppet_location puppet =
     (case puppet of
        None \<Rightarrow> Inr ''None''
      | Some p \<Rightarrow>
          (case puppet.location p of
             None \<Rightarrow> Inl AttributeError
           | Some l \<Rightarrow> Inr (location.key l)))"

text \<open>
  The three loops. Each skips a session that is not logged in before it reads the
  clock; \<open>k\<close> counts the clock readings made so far. An error ends the loop.
\<close>

fun loop_full :: "host \<Rightarrow> session list \<Rightarrow> nat \<Rightarrow> PrettyTable \<Rightarrow> error + PrettyTable" where
  "loop_full h [] k table = Inr table"
| "loop_full h (session # rest) k table =
     (if \<not> logged_in session then loop_full h rest k table
      else
        let delta_cmd = time h k - cmd_last_visible session;
            delta_conn = time h (Suc k) - conn_time session;
            player = get_player session;
            puppet = get_puppet session
        in (case puppet_location puppet of
              Inl e \<Rightarrow> Inl e
            | Inr loc \<Rightarrow>
                (case player of
                   None \<Rightarrow> Inl AttributeError
                 | Some acct \<Rightarrow>
                     loop_full h rest (k + 2)
                       (add_row table
                          [CellStr (crop h (name acct) 25),
                           CellStr (time_format h delta_conn 0),
                           CellStr (time_format h delta_cmd 1),
                           CellStr (crop h (case puppet of Some p \<Rightarrow> puppet.key p
                                              | None \<Rightarrow> ''None'') 25),
                           CellStr (crop h loc 25),
                           CellInt (cmd_total session),
                           CellStr (protocol_key session),
                           address_cell (address session)]))))"

fun loop_player :: "host \<Rightarrow> session list \<Rightarrow> nat \<Rightarrow> PrettyTable \<Rightarrow> error + PrettyTable" where
  "loop_player h [] k table = Inr table"
| "loop_player h (session # rest) k table =
     (if \<not> logged_in session then loop_player h rest k table
      else
        let delta_cmd = time h k - cmd_last_visible session;
            delta_conn = time h (Suc k) - conn_time session;
            puppet = get_puppet session
        in (case puppet_location puppet of
              Inl e \<Rightarrow> Inl e
            | Inr loc \<Rightarrow>
                loop_player h rest (k + 2)
                  (add_row table
                     [CellStr (crop h (case puppet of Some p \<Rightarrow> puppet.key p
                                         | None \<Rightarrow> ''- Unknown -'') 25),
                      CellStr (time_format h delta_conn 0),
                      CellStr (time_format h delta_cmd 1),
                      CellStr (crop h loc 25)])))"

fun loop_who :: "host \<Rightarrow> session list \<Rightarrow> nat \<Rightarrow> PrettyTable \<Rightarrow> error + PrettyTable" where
  "loop_who h [] k table = Inr table"
| "loop_who h (session # rest) k table =
     (if \<not> logged_in session then loop_who h rest k table
      else
        let delta_cmd = time h k - cmd_last_visible session;
            delta_conn = time h (Suc k) - conn_time session;
            puppet = get_puppet session
        in loop_who h rest (k + 2)
             (add_row table
                [CellStr (crop h (case puppet of Some p \<Rightarrow> puppet.key p
                                    | None \<Rightarrow> ''- Unknown -'') 25),
                 CellStr (time_format h delta_conn 0),
                 CellStr (time_format h delta_cmd 1)]))"

text \<open>Lines 168 to 233: the sorted session list, the permission test and the table.\<close>

definition who_table :: "host \<Rightarrow> CmdWho \<Rightarrow> sessionhandler \<Rightarrow> error + PrettyTable" where
  "who_table h self S =
     (let player = CmdWho.player self;
          session_list = get_sessions S
      in case sorted_sessions session_list of
           Inl e \<Rightarrow> Inl e
         | Inr session_list \<Rightarrow>
             (let show_session_data =
                    (if ''f'' \<in> set (switches self)
                     then check_permstring player ''Immortals''
                          \<or> check_permstring player ''Wizards''
                     else False)
              in if ''f'' \<in> set (switches self) then
                   (if show_session_data then
                      loop_full h session_list 0
                        (new_table [''{wPlayer Name'', ''{wOn for'', ''{wIdle'',
                                    ''{wCharacter'', ''{wRoom'', ''{wCmds'', ''{wProtocol'',
                                    ''{wHost''])
                    else
                      loop_player h session_list 0
                        (new_table [''{wCharacter'', ''{wOn for'', ''{wIdle'', ''{wLocation'']))
                 else
                   loop_who h session_list 0
                     (new_table [''{wCharacter'', ''{wOn for'', ''{wIdle''])))"

text \<open>Lines 235 and 236: the text of the report.\<close>

definition who_string :: "host \<Rightarrow> PrettyTable \<Rightarrow> int \<Rightarrow> string" where
  "who_string h table nplayers =
     (let isone = (nplayers = 1)
      in ''{wPlayers:{n'' @ [CHR 0x0A] @ table_str h table @ [CHR 0x0A]
         @ (if isone then ''One'' else str_int nplayers)
         @ '' unique account'' @ (if isone then [] else ''s'') @ '' logged in.'')"

text \<open>
  The command. It returns whether it completed or raised, and the state it left: when
  an error is raised nothing has been sent, since \<open>self.msg\<close> is the last statement.
\<close>

definition func :: "host \<Rightarrow> CmdWho \<Rightarrow> world \<Rightarrow> (error + unit) \<times> world" where
  "func h self w =
     (case who_table h self (SESSIONS w) of
        Inl e \<Rightarrow> (Inl e, w)
      | Inr table \<Rightarrow>
          (let nplayers = player_count (SESSIONS w);
               string = who_string h table nplayers
           in (Inr (), msg self string w)))"

section \<open>The lifecycle of the base \<open>Command\<close>\<close>

text \<open>
  A hook returns a Python value. The hooks of the base class whose body is \<open>pass\<close>
  return \<open>None\<close>. \<open>truthy\<close> is Python's truth test, \<open>is_bool\<close> tells a boolean from
  \<open>None\<close>.
\<close>

datatype pyval = PyNone | PyBool bool

definition truthy :: "pyval \<Rightarrow> bool" where
  "truthy v = (case v of PyNone \<Rightarrow> False | PyBool b \<Rightarrow> b)"

definition is_bool :: "pyval \<Rightarrow> bool" where
  "is_bool v = (case v of PyNone \<Rightarrow> False | PyBool b \<Rightarrow> True)"

text \<open>The base class, lines 12 to 95; \<open>caller\<close> is the key of the calling account.\<close>

record Command =
  caller :: string

definition Command_at_pre_cmd :: "Command \<Rightarrow> world \<Rightarrow> pyval \<times> world" where
  "Command_at_pre_cmd self w = (PyNone, w)"

definition Command_parse :: "Command \<Rightarrow> world \<Rightarrow> world" where
  "Command_parse self w = w"

definition Command_func :: "Command \<Rightarrow> world \<Rightarrow> world" where
  "Command_func self w = w\<lparr>outbox := outbox w @ [(caller self, ''Command called!'')]\<rparr>"

definition Command_at_post_cmd :: "Command \<Rightarrow> world \<Rightarrow> world" where
  "Command_at_post_cmd self w = w"

text \<open>A command type as the dispatcher sees it: its four hooks.\<close>

record hooks =
  at_pre_cmd :: "world \<Rightarrow> pyval \<times> world"
  parse_hook :: "world \<Rightarrow> world"
  func_hook :: "world \<Rightarrow> world"
  at_post_cmd :: "world \<Rightarrow> world"

definition base_hooks :: "Command \<Rightarrow> hooks" where
  "base_hooks self =
     \<lparr>at_pre_cmd = Command_at_pre_cmd self,
      parse_hook = Command_parse self,
      func_hook = Command_func self,
      at_post_cmd = Command_at_post_cmd self\<rparr>"

text \<open>A command type that overrides the pre-hook of the base class to return \<open>True\<close>.\<close>

definition cancelling_hooks :: "Command \<Rightarrow> hooks" where
  "cancelling_hooks self = (base_hooks self)\<lparr>at_pre_cmd := (\<lambda>w. (PyBool True, w))\<rparr>"

datatype hook = AtPreCmd | Parse | Func | AtPostCmd

text \<open>Modelled from the spec: the dispatcher is the host's command handler and is not
  in the module. Section 4.1 and the docstring of \<open>Command\<close> give its contract: it calls
  \<open>at_pre_cmd\<close>, and "if this returns True, execution is aborted"; otherwise \<open>parse\<close>,
  \<open>func\<close> and \<open>at_post_cmd\<close> follow in this order. The result is the list of hooks that
  ran and the state they left.\<close>

definition dispatch :: "hooks \<Rightarrow> world \<Rightarrow> hook list \<times> world" where
  "dispatch c w =
     (let (r, w1) = at_pre_cmd c w
      in if truthy r then ([AtPreCmd], w1)
         else
           (let w2 = parse_hook c w1;
                w3 = func_hook c w2;
                w4 = at_post_cmd c w3
            in ([AtPreCmd, Parse, Func, AtPostCmd], w4)))"

section \<open>Reading the table: the row of one session\<close>

text \<open>
  The lists the three loops hand to \<open>add_row\<close>, as functions of the session and of the
  number \<open>k\<close> of clock readings made before it, with the error the loop raises instead
  when an attribute is missing. They serve to state what a table holds.
\<close>

definition full_row :: "host \<Rightarrow> nat \<Rightarrow> session \<Rightarrow> error + cell list" where
  "full_row h k s =
     (case puppet_location (get_puppet s) of
        Inl e \<Rightarrow> Inl e
      | Inr loc \<Rightarrow>
          (case get_player s of
             None \<Rightarrow> Inl AttributeError
           | Some acct \<Rightarrow>
               Inr [CellStr (crop h (name acct) 25),
                    CellStr (time_format h (time h (Suc k) - conn_time s) 0),
                    CellStr (time_format h (time h k - cmd_last_visible s) 1),
                    CellStr (crop h (case get_puppet s of Some p \<Rightarrow> puppet.key p
                                       | None \<Rightarrow> ''None'') 25),
                    CellStr (crop h loc 25),
                    CellInt (cmd_total s),
                    CellStr (protocol_key s),
                    address_cell (address s)]))"

definition player_row :: "host \<Rightarrow> nat \<Rightarrow> session \<Rightarrow> error + cell list" where
  "player_row h k s =
     (case puppet_location (get_puppet s) of
        Inl e \<Rightarrow> Inl e
      | Inr loc \<Rightarrow>
          Inr [CellStr (crop h (case get_puppet s of Some p \<Rightarrow> puppet.key p
                                  | None \<Rightarrow> ''- Unknown -'') 25),
               CellStr (time_format h (time h (Suc k) - conn_time s) 0),
               CellStr (time_format h (time h k - cmd_last_visible s) 1),
               CellStr (crop h loc 25)])"

definition who_row :: "host \<Rightarrow> nat \<Rightarrow> session \<Rightarrow> error + cell list" where
  "who_row h k s =
     Inr [CellStr (crop h (case get_puppet s of Some p \<Rightarrow> puppet.key p
                             | None \<Rightarrow> ''- Unknown -'') 25),
          CellStr (time_format h (time h (Suc k) - conn_time s) 0),
          CellStr (time_format h (time h k - cmd_last_visible s) 1)]"

text \<open>The rows of a list of sessions, each session reading the clock twice; the first
  error ends the list.\<close>

fun rows_from ::
  "(nat \<Rightarrow> session \<Rightarrow> error + cell list) \<Rightarrow> nat \<Rightarrow> session list \<Rightarrow> error + cell list list"
where
  "rows_from row k [] = Inr []"
| "rows_from row k (s # ss) =
     (case row k s of
        Inl e \<Rightarrow> Inl e
      | Inr r \<Rightarrow>
          (case rows_from row (k + 2) ss of
             Inl e \<Rightarrow> Inl e
           | Inr rs \<Rightarrow> Inr (r # rs)))"

text \<open>The caller's permission test, and the row function and the column names of the
  view it selects.\<close>

definition elevated :: "CmdWho \<Rightarrow> bool" where
  "elevated self =
     (check_permstring (CmdWho.player self) ''Immortals''
      \<or> check_permstring (CmdWho.player self) ''Wizards'')"

definition view_row :: "host \<Rightarrow> CmdWho \<Rightarrow> nat \<Rightarrow> session \<Rightarrow> error + cell list" where
  "view_row h self =
     (if ''f'' \<in> set (switches self) then (if elevated self then full_row h else player_row h)
      else who_row h)"

definition view_names :: "CmdWho \<Rightarrow> string list" where
  "view_names self =
     (if ''f'' \<in> set (switches self) then
        (if elevated self then
           [''{wPlayer Name'', ''{wOn for'', ''{wIdle'', ''{wCharacter'',
            ''{wRoom'', ''{wCmds'', ''{wProtocol'', ''{wHost'']
         else [''{wCharacter'', ''{wOn for'', ''{wIdle'', ''{wLocation''])
      else [''{wCharacter'', ''{wOn for'', ''{wIdle''])"

text \<open>The attributes a view reads of a logged-in session are all there: the location
  of its puppet, if it has one, in both views of \<open>who/f\<close>, and its account in the full
  view.\<close>

definition has_location :: "session \<Rightarrow> bool" where
  "has_location s = (case get_puppet s of None \<Rightarrow> True | Some p \<Rightarrow> puppet.location p \<noteq> None)"

definition row_ready :: "CmdWho \<Rightarrow> session \<Rightarrow> bool" where
  "row_ready self s =
     (if ''f'' \<in> set (switches self) then
        (if elevated self then has_location s \<and> get_player s \<noteq> None else has_location s)
      else True)"

text \<open>The command completes on a session handler: every session has an account, and
  every logged-in session has what the view reads.\<close>

definition completes :: "CmdWho \<Rightarrow> sessionhandler \<Rightarrow> bool" where
  "completes self S =
     (list_all (\<lambda>s. session.player s \<noteq> None) (get_sessions S)
      \<and> list_all (row_ready self) (filter logged_in (get_sessions S)))"

text \<open>A cell that holds a string of at most \<open>n\<close> characters.\<close>

definition text_upto :: "nat \<Rightarrow> cell \<Rightarrow> bool" where
  "text_upto n c = (case c of CellStr s \<Rightarrow> length s \<le> n | CellInt i \<Rightarrow> False | CellTuple a b \<Rightarrow> False)"

text \<open>The key of the account that owns a session, by which \<open>func\<close> sorts; empty for a
  session without an account, on which the sort raises.\<close>

definition account_key :: "session \<Rightarrow> string" where
  "account_key s = (case session.player s of None \<Rightarrow> [] | Some p \<Rightarrow> player.key p)"

text \<open>An account with its key and its name blanked, and a session with its accounts,
  its protocol identifier and its address blanked. Two sessions with the same \<open>hide\<close>
  differ at most in the names of their accounts, their protocols and their addresses.\<close>

definition anonymous :: "player \<Rightarrow> player" where
  "anonymous p = p\<lparr>player.key := [], name := []\<rparr>"

definition hide :: "session \<Rightarrow> session" where
  "hide s =
     s\<lparr>session.player := map_option anonymous (session.player s),
       get_player := map_option anonymous (get_player s),
       protocol_key := [],
       address := AddrStr []\<rparr>"

text \<open>Two session lists whose account keys compare alike, position by position, so that
  sorting moves the sessions of both in the same way.\<close>

definition same_order :: "session list \<Rightarrow> session list \<Rightarrow> bool" where
  "same_order ss ts =
     (\<forall>(a, b) \<in> set (zip ss ts). \<forall>(c, d) \<in> set (zip ss ts).
        (account_key a \<le> account_key c) = (account_key b \<le> account_key d))"

section \<open>A host and a server state to run the model on\<close>

text \<open>Modelled from the spec: \<open>utils.crop\<close> belongs to the host; the specification says
  that strings "are truncated to a fixed display width". The plainest such function
  stands for it where the model is run.\<close>

definition take_crop :: "string \<Rightarrow> nat \<Rightarrow> string" where
  "take_crop text width = take width text"

definition cell_text :: "cell \<Rightarrow> string" where
  "cell_text c =
     (case c of
        CellStr s \<Rightarrow> s
      | CellInt i \<Rightarrow> str_int i
      | CellTuple h p \<Rightarrow> ''('' @ h @ '', '' @ str_int p @ '')'')"

definition plain_table :: "PrettyTable \<Rightarrow> string" where
  "plain_table t =
     concat (map (\<lambda>line. concat (map (\<lambda>w. w @ '' '') line) @ [CHR 0x0A])
               (field_names t # map (map cell_text) (rows t)))"

definition example_host :: host where
  "example_host =
     \<lparr>crop = take_crop,
      time_format = (\<lambda>d style. str_int \<lfloor>d\<rfloor> @ (if style = 0 then ''s'' else ''.0s'')),
      time = (\<lambda>k. 1000 + real k),
      table_str = plain_table\<rparr>"

definition account :: "string \<Rightarrow> string list \<Rightarrow> player" where
  "account k perms = \<lparr>player.key = k, name = k, check_permstring = (\<lambda>p. p \<in> set perms)\<rparr>"

definition example_session :: "string \<Rightarrow> bool \<Rightarrow> puppet option \<Rightarrow> session" where
  "example_session k li pu =
     \<lparr>session.player = Some (account k []),
      logged_in = li,
      cmd_last_visible = 990,
      conn_time = 400,
      get_player = Some (account k []),
      get_puppet = pu,
      cmd_total = 7,
      protocol_key = ''telnet'',
      address = AddrTuple ''10.0.0.1'' 4000\<rparr>"

definition example_puppet :: "string \<Rightarrow> string \<Rightarrow> puppet" where
  "example_puppet k room = \<lparr>puppet.key = k, location = Some \<lparr>location.key = room\<rparr>\<rparr>"

text \<open>Three logged-in sessions and one session that is not logged in. Amy has no
  puppet; the last account has a key of 30 characters, its puppet a name of 30 and a
  location of 35 characters.\<close>

definition example_sessions :: sessionhandler where
  "example_sessions =
     \<lparr>get_sessions =
        [example_session ''Bob'' True (Some (example_puppet ''Robert'' ''Limbo'')),
         example_session ''Zachariah-of-the-Western-Isles'' True
           (Some (example_puppet ''Zedekiah-the-Magnificent-of-Ur''
                    ''The-Great-Hall-of-the-Mountain-King'')),
         example_session ''Gus'' False (Some (example_puppet ''Gustav'' ''Limbo'')),
         example_session ''Amy'' True None],
      player_count = 3\<rparr>"



text \<open>A logged-in session whose puppet is nowhere.\<close>

definition example_sessions_nowhere :: sessionhandler where
  "example_sessions_nowhere =
     \<lparr>get_sessions =
        [example_session ''Bob'' True (Some \<lparr>puppet.key = ''Robert'', location = None\<rparr>)],
      player_count = 1\<rparr>"

text \<open>The sessions of \<open>example_sessions\<close> under other account keys and names, which sort
  as the old ones do, other protocols and other addresses.\<close>

definition new_name :: "string \<Rightarrow> string" where
  "new_name k =
     (if k = ''Amy'' then ''Abigail''
      else if k = ''Bob'' then ''Bartholomew''
      else if k = ''Gus'' then ''Gwendolyn''
      else ''Zoe'')"

definition renamed :: "session \<Rightarrow> session" where
  "renamed s =
     s\<lparr>session.player := Some (account (new_name (account_key s)) []),
       get_player := Some (account (new_name (account_key s)) []),
       protocol_key := ''websocket'',
       address := AddrStr ''192.168.7.7''\<rparr>"

definition example_sessions_renamed :: sessionhandler where
  "example_sessions_renamed =
     example_sessions\<lparr>get_sessions := map renamed (get_sessions example_sessions)\<rparr>"

text \<open>Two session lists that differ only in which account owns which session.\<close>

definition xena_yuri :: sessionhandler where
  "xena_yuri =
     \<lparr>get_sessions =
        [example_session ''Xena'' True (Some (example_puppet ''Alpha'' ''Limbo'')),
         example_session ''Yuri'' True (Some (example_puppet ''Beta'' ''Limbo''))],
      player_count = 2\<rparr>"

definition yuri_xena :: sessionhandler where
  "yuri_xena =
     \<lparr>get_sessions =
        [example_session ''Yuri'' True (Some (example_puppet ''Alpha'' ''Limbo'')),
         example_session ''Xena'' True (Some (example_puppet ''Beta'' ''Limbo''))],
      player_count = 2\<rparr>"

definition example_world :: world where
  "example_world = \<lparr>SESSIONS = example_sessions, outbox = []\<rparr>"

definition who_plain :: CmdWho where
  "who_plain = \<lparr>CmdWho.player = account ''Amy'' [], switches = []\<rparr>"

definition who_f_player :: CmdWho where
  "who_f_player = \<lparr>CmdWho.player = account ''Amy'' [], switches = [''f'']\<rparr>"

definition who_f_wizard :: CmdWho where
  "who_f_wizard = \<lparr>CmdWho.player = account ''Merlin'' [''Wizards''], switches = [''f'']\<rparr>"

section \<open>Properties of the table\<close>

text \<open>The sort raises exactly when some session has no account; otherwise it is the
  stable sort by the key of the owning account.\<close>

lemma sort_keys_eq:
  "sort_keys ss =
     (if \<forall>s\<in>set ss. session.player s \<noteq> None then Inr (map account_key ss)
      else Inl AttributeError)"
  by (induction ss) (auto simp: account_key_def split: option.splits sum.splits error.splits)

lemma zip_map_self: "zip (map f xs) xs = map (\<lambda>x. (f x, x)) xs"
  by (induction xs) simp_all

lemma insort_key_map:
  "insort_key f (g x) (map g ys) = map g (insort_key (\<lambda>y. f (g y)) x ys)"
  by (induction ys) simp_all

lemma sort_key_map: "sort_key f (map g xs) = map g (sort_key (\<lambda>y. f (g y)) xs)"
  by (induction xs) (simp_all add: insort_key_map)

lemma sorted_sessions_eq:
  "sorted_sessions ss =
     (if \<forall>s\<in>set ss. session.player s \<noteq> None then Inr (sort_key account_key ss)
      else Inl AttributeError)"
  by (simp add: sorted_sessions_def sort_keys_eq zip_map_self sort_key_map comp_def)

text \<open>Each loop keeps the rows it was given and appends one row per logged-in session,
  unless a row raises.\<close>

lemma loop_full_eq:
  "loop_full h ss k t =
     (case rows_from (full_row h) k (filter logged_in ss) of
        Inl e \<Rightarrow> Inl e
      | Inr rs \<Rightarrow> Inr (t\<lparr>rows := rows t @ rs\<rparr>))"
  by (induction ss arbitrary: k t)
    (simp_all add: Let_def add_row_def full_row_def split: sum.splits option.splits)

lemma loop_player_eq:
  "loop_player h ss k t =
     (case rows_from (player_row h) k (filter logged_in ss) of
        Inl e \<Rightarrow> Inl e
      | Inr rs \<Rightarrow> Inr (t\<lparr>rows := rows t @ rs\<rparr>))"
  by (induction ss arbitrary: k t)
    (simp_all add: Let_def add_row_def player_row_def split: sum.splits option.splits)

lemma loop_who_eq:
  "loop_who h ss k t =
     (case rows_from (who_row h) k (filter logged_in ss) of
        Inl e \<Rightarrow> Inl e
      | Inr rs \<Rightarrow> Inr (t\<lparr>rows := rows t @ rs\<rparr>))"
  by (induction ss arbitrary: k t)
    (simp_all add: Let_def add_row_def who_row_def split: sum.splits option.splits)

lemma who_table_eq:
  "who_table h self S =
     (if \<forall>s\<in>set (get_sessions S). session.player s \<noteq> None then
        (case rows_from (view_row h self) 0
                (filter logged_in (sort_key account_key (get_sessions S))) of
           Inl e \<Rightarrow> Inl e
         | Inr rs \<Rightarrow> Inr \<lparr>field_names = view_names self, rows = rs\<rparr>)
      else Inl AttributeError)"
proof (cases "\<forall>s\<in>set (get_sessions S). session.player s \<noteq> None")
  case False
  then have "sorted_sessions (get_sessions S) = Inl AttributeError"
    by (simp add: sorted_sessions_eq)
  then have "who_table h self S = Inl AttributeError"
    by (simp add: who_table_def)
  then show ?thesis
    by (simp only: if_not_P [OF False])
next
  case True
  then have "sorted_sessions (get_sessions S) = Inr (sort_key account_key (get_sessions S))"
    by (simp add: sorted_sessions_eq)
  then have "who_table h self S =
        (case rows_from (view_row h self) 0
                (filter logged_in (sort_key account_key (get_sessions S))) of
           Inl e \<Rightarrow> Inl e
         | Inr rs \<Rightarrow> Inr \<lparr>field_names = view_names self, rows = rs\<rparr>)"
    by (simp add: who_table_def view_row_def view_names_def elevated_def
          new_table_def loop_full_eq loop_player_eq loop_who_eq split: sum.splits)
  then show ?thesis
    by (simp only: if_P [OF True])
qed

lemma error_is_AttributeError: "(e :: error) = AttributeError"
  by (cases e) simp

lemma rows_from_all2:
  "rows_from row k ss = Inr rs \<Longrightarrow> list_all2 (\<lambda>s r. \<exists>k. row k s = Inr r) ss rs"
  by (induction ss arbitrary: k rs) (auto split: sum.splits)

lemma view_row_ready:
  "(\<exists>r. view_row h self k s = Inr r) = row_ready self s"
  by (auto simp: view_row_def row_ready_def full_row_def player_row_def who_row_def
        has_location_def puppet_location_def split: option.splits sum.splits)

lemma rows_from_ready:
  "(\<exists>rs. rows_from (view_row h self) k ss = Inr rs) = list_all (row_ready self) ss"
proof (induction ss arbitrary: k)
  case Nil
  show ?case by simp
next
  case (Cons s ss)
  from Cons [of "k + 2"] view_row_ready [of h self k s] show ?case
    by (auto split: sum.splits)
qed

lemma who_table_completes: "(\<exists>t. who_table h self S = Inr t) = completes self S"
proof -
  have "list_all (row_ready self) (filter logged_in (sort_key account_key (get_sessions S)))
        = list_all (row_ready self) (filter logged_in (get_sessions S))"
    by (simp add: list_all_iff)
  with rows_from_ready [of h self 0 "filter logged_in (sort_key account_key (get_sessions S))"]
  show ?thesis
    by (auto simp: who_table_eq completes_def list_all_iff split: sum.splits)
qed

lemma who_table_Inr:
  assumes "who_table h self S = Inr t"
  shows "(\<forall>s\<in>set (get_sessions S). session.player s \<noteq> None)
       \<and> field_names t = view_names self
       \<and> rows_from (view_row h self) 0
           (filter logged_in (sort_key account_key (get_sessions S))) = Inr (rows t)"
  using assms by (auto simp: who_table_eq split: if_splits sum.splits)

lemma who_table_all2:
  assumes "who_table h self S = Inr t"
  shows "list_all2 (\<lambda>s r. \<exists>k. view_row h self k s = Inr r)
           (filter logged_in (sort_key account_key (get_sessions S))) (rows t)"
  using who_table_Inr [OF assms] by (blast intro: rows_from_all2)


lemma all2_right: "list_all2 P xs ys \<Longrightarrow> y \<in> set ys \<Longrightarrow> \<exists>x. P x y"
  by (auto simp: list_all2_conv_all_nth in_set_conv_nth)

lemmas example_defs = example_host_def example_sessions_def example_session_def example_puppet_def
  account_def who_plain_def who_f_player_def who_f_wizard_def take_crop_def example_world_def




lemma full_row_Inr:
  "full_row h k s = Inr r \<Longrightarrow>
     \<exists>a l. get_player s = Some a \<and> puppet_location (get_puppet s) = Inr l
        \<and> r = [CellStr (crop h (name a) 25),
                CellStr (time_format h (time h (Suc k) - conn_time s) 0),
                CellStr (time_format h (time h k - cmd_last_visible s) 1),
                CellStr (crop h (case get_puppet s of Some p \<Rightarrow> puppet.key p
                                   | None \<Rightarrow> ''None'') 25),
                CellStr (crop h l 25),
                CellInt (cmd_total s),
                CellStr (protocol_key s),
                address_cell (address s)]"
  by (auto simp: full_row_def split: sum.splits option.splits)

lemma player_row_Inr:
  "player_row h k s = Inr r \<Longrightarrow>
     \<exists>l. puppet_location (get_puppet s) = Inr l
        \<and> r = [CellStr (crop h (case get_puppet s of Some p \<Rightarrow> puppet.key p
                                   | None \<Rightarrow> ''- Unknown -'') 25),
                CellStr (time_format h (time h (Suc k) - conn_time s) 0),
                CellStr (time_format h (time h k - cmd_last_visible s) 1),
                CellStr (crop h l 25)]"
  by (auto simp: player_row_def split: sum.splits)

lemma who_row_Inr:
  "who_row h k s = Inr r \<Longrightarrow>
     r = [CellStr (crop h (case get_puppet s of Some p \<Rightarrow> puppet.key p
                              | None \<Rightarrow> ''- Unknown -'') 25),
          CellStr (time_format h (time h (Suc k) - conn_time s) 0),
          CellStr (time_format h (time h k - cmd_last_visible s) 1)]"
  by (auto simp: who_row_def)

lemma puppet_location_None: "puppet_location None = Inr ''None''"
  by (simp add: puppet_location_def)

text \<open>
  C2. When the \<open>f\<close> switch is present and the caller holds the permission Immortals
  or Wizards, the table has the eight columns player name, connection time, idle time,
  character, room, command count, protocol and host, in this order; every row has
  eight cells; its first cell is the account name and its fifth the location, both
  passed through \<open>crop\<close> with width 25. For a \<open>crop\<close> that keeps its result within 25
  characters, both are at most 25 characters long. The table is the one the command
  builds when it completes, and it completes on every session handler that
  \<open>completes\<close> describes.
\<close>

theorem who_full_view:
  assumes f: "''f'' \<in> set (switches self)"
    and e: "check_permstring (CmdWho.player self) ''Immortals''
            \<or> check_permstring (CmdWho.player self) ''Wizards''"
    and c: "\<forall>s. length (crop h s 25) \<le> 25"
  shows "(who_table h self S = Inr t \<longrightarrow>
           field_names t =
             [''{wPlayer Name'', ''{wOn for'', ''{wIdle'', ''{wCharacter'',
              ''{wRoom'', ''{wCmds'', ''{wProtocol'', ''{wHost'']
           \<and> list_all2
               (\<lambda>s r. length r = 8
                  \<and> (\<exists>a. get_player s = Some a \<and> r ! 0 = CellStr (crop h (name a) 25))
                  \<and> (\<exists>l. puppet_location (get_puppet s) = Inr l
                          \<and> r ! 4 = CellStr (crop h l 25)))
               (filter logged_in (sort_key account_key (get_sessions S)))
               (rows t)
           \<and> (\<forall>r \<in> set (rows t).
                \<exists>n l. length r = 8 \<and> r ! 0 = CellStr n \<and> r ! 4 = CellStr l
                      \<and> length n \<le> 25 \<and> length l \<le> 25))
       \<and> (completes self S \<longrightarrow> (\<exists>t. who_table h self S = Inr t))"
proof -
  from e have el: "elevated self" by (simp add: elevated_def)
  have v: "view_row h self = full_row h"
    using f el by (simp add: view_row_def)
  have x: "field_names t =
             [''{wPlayer Name'', ''{wOn for'', ''{wIdle'', ''{wCharacter'',
              ''{wRoom'', ''{wCmds'', ''{wProtocol'', ''{wHost'']
           \<and> list_all2
               (\<lambda>s r. length r = 8
                  \<and> (\<exists>a. get_player s = Some a \<and> r ! 0 = CellStr (crop h (name a) 25))
                  \<and> (\<exists>l. puppet_location (get_puppet s) = Inr l
                          \<and> r ! 4 = CellStr (crop h l 25)))
               (filter logged_in (sort_key account_key (get_sessions S)))
               (rows t)
           \<and> (\<forall>r \<in> set (rows t).
                \<exists>n l. length r = 8 \<and> r ! 0 = CellStr n \<and> r ! 4 = CellStr l
                      \<and> length n \<le> 25 \<and> length l \<le> 25)"
    if t: "who_table h self S = Inr t"
  proof -
    from who_table_Inr [OF t] f el have n: "field_names t =
             [''{wPlayer Name'', ''{wOn for'', ''{wIdle'', ''{wCharacter'',
              ''{wRoom'', ''{wCmds'', ''{wProtocol'', ''{wHost'']"
      by (simp add: view_names_def)
    have a: "list_all2 (\<lambda>s r. \<exists>k. full_row h k s = Inr r)
       (filter logged_in (sort_key account_key (get_sessions S))) (rows t)"
      using who_table_all2 [OF t] by (simp only: v)
    have a2: "list_all2
               (\<lambda>s r. length r = 8
                  \<and> (\<exists>a. get_player s = Some a \<and> r ! 0 = CellStr (crop h (name a) 25))
                  \<and> (\<exists>l. puppet_location (get_puppet s) = Inr l
                          \<and> r ! 4 = CellStr (crop h l 25)))
               (filter logged_in (sort_key account_key (get_sessions S)))
               (rows t)"
      by (rule list_all2_mono [OF a]) (auto dest!: full_row_Inr)
    have b: "\<forall>r \<in> set (rows t).
                \<exists>n l. length r = 8 \<and> r ! 0 = CellStr n \<and> r ! 4 = CellStr l
                      \<and> length n \<le> 25 \<and> length l \<le> 25"
    proof
      fix r assume "r \<in> set (rows t)"
      with a2 have "\<exists>s :: session. length r = 8
                  \<and> (\<exists>a. get_player s = Some a \<and> r ! 0 = CellStr (crop h (name a) 25))
                  \<and> (\<exists>l. puppet_location (get_puppet s) = Inr l
                          \<and> r ! 4 = CellStr (crop h l 25))"
        by (rule all2_right)
      with c show "\<exists>n l. length r = 8 \<and> r ! 0 = CellStr n \<and> r ! 4 = CellStr l
                    \<and> length n \<le> 25 \<and> length l \<le> 25"
        by blast
    qed
    from n a2 b show ?thesis by blast
  qed
  have y: "\<exists>t. who_table h self S = Inr t" if "completes self S"
    using that by (simp only: who_table_completes)
  from x y show ?thesis by blast
qed

theorem who_full_view_witness:
  "''f'' \<in> set (switches who_f_wizard)
   \<and> (check_permstring (CmdWho.player who_f_wizard) ''Immortals''
        \<or> check_permstring (CmdWho.player who_f_wizard) ''Wizards'')
   \<and> (\<forall>s. length (crop example_host s 25) \<le> 25)
   \<and> completes who_f_wizard example_sessions
   \<and> who_table example_host who_f_wizard example_sessions =
       Inr \<lparr>field_names =
              [''{wPlayer Name'', ''{wOn for'', ''{wIdle'', ''{wCharacter'',
               ''{wRoom'', ''{wCmds'', ''{wProtocol'', ''{wHost''],
            rows =
              [[CellStr ''Amy'', CellStr ''601s'', CellStr ''10.0s'', CellStr ''None'',
                CellStr ''None'', CellInt 7, CellStr ''telnet'', CellStr ''10.0.0.1''],
               [CellStr ''Bob'', CellStr ''603s'', CellStr ''12.0s'', CellStr ''Robert'',
                CellStr ''Limbo'', CellInt 7, CellStr ''telnet'', CellStr ''10.0.0.1''],
               [CellStr ''Zachariah-of-the-Western-'', CellStr ''605s'', CellStr ''14.0s'',
                CellStr ''Zedekiah-the-Magnificent-'', CellStr ''The-Great-Hall-of-the-Mou'',
                CellInt 7, CellStr ''telnet'', CellStr ''10.0.0.1'']]\<rparr>"
proof -
  have f: "''f'' \<in> set (switches who_f_wizard)"
    by (simp add: who_f_wizard_def)
  have e: "check_permstring (CmdWho.player who_f_wizard) ''Immortals''
        \<or> check_permstring (CmdWho.player who_f_wizard) ''Wizards''"
    by (simp add: who_f_wizard_def account_def)
  have c: "\<forall>s. length (crop example_host s 25) \<le> 25"
    by (simp add: example_host_def take_crop_def)
  have d: "completes who_f_wizard example_sessions"
    by (simp add: completes_def row_ready_def has_location_def who_f_wizard_def
          example_sessions_def example_session_def example_puppet_def)
  from who_full_view [OF f e c, of example_sessions] d
  have "\<exists>t. who_table example_host who_f_wizard example_sessions = Inr t"
    by blast
  moreover have "who_table example_host who_f_wizard example_sessions =
       Inr \<lparr>field_names =
              [''{wPlayer Name'', ''{wOn for'', ''{wIdle'', ''{wCharacter'',
               ''{wRoom'', ''{wCmds'', ''{wProtocol'', ''{wHost''],
            rows =
              [[CellStr ''Amy'', CellStr ''601s'', CellStr ''10.0s'', CellStr ''None'',
                CellStr ''None'', CellInt 7, CellStr ''telnet'', CellStr ''10.0.0.1''],
               [CellStr ''Bob'', CellStr ''603s'', CellStr ''12.0s'', CellStr ''Robert'',
                CellStr ''Limbo'', CellInt 7, CellStr ''telnet'', CellStr ''10.0.0.1''],
               [CellStr ''Zachariah-of-the-Western-'', CellStr ''605s'', CellStr ''14.0s'',
                CellStr ''Zedekiah-the-Magnificent-'', CellStr ''The-Great-Hall-of-the-Mou'',
                CellInt 7, CellStr ''telnet'', CellStr ''10.0.0.1'']]\<rparr>"
    by (simp add: who_table_def sorted_sessions_def puppet_location_def example_defs
          new_table_def add_row_def digit_char_def str_int_def address_cell_def Let_def)
  ultimately show ?thesis using f e c d by blast
qed

text \<open>
  Against C9 as stated: in the view of plain \<open>who\<close> the row of a session without a
  puppet has three cells, none of them a location, and \<open>None\<close> is not displayed.
\<close>

theorem plain_who_has_no_location_cell:
  "get_puppet (example_session ''Amy'' True None) = None
   \<and> who_table example_host who_plain
        \<lparr>get_sessions = [example_session ''Amy'' True None], player_count = 1\<rparr> =
       Inr \<lparr>field_names = [''{wCharacter'', ''{wOn for'', ''{wIdle''],
            rows = [[CellStr ''- Unknown -'', CellStr ''601s'', CellStr ''10.0s'']]\<rparr>
   \<and> CellStr ''None'' \<notin> set [CellStr ''- Unknown -'', CellStr ''601s'', CellStr ''10.0s'']"
  by (simp add: who_table_def sorted_sessions_def example_defs new_table_def add_row_def
        digit_char_def str_int_def Let_def)

text \<open>
  C9, as amended. For a logged-in session without a puppet the character cell holds the
  placeholder of the view: \<open>None\<close> in the full view of an elevated caller of \<open>who/f\<close>
  (fourth of eight cells), \<open>- Unknown -\<close> in the view of \<open>who/f\<close> for other callers
  (first of four cells) and in the view of plain \<open>who\<close> (first of three cells). The
  location cell of such a session holds \<open>None\<close> in the two views of \<open>who/f\<close>, the views
  that have a location column; the view of plain \<open>who\<close> has none. Every placeholder
  passes through \<open>crop\<close> with width 25; the theorem assumes that \<open>crop\<close> leaves these
  two short strings as they are.
\<close>

theorem who_placeholders:
  assumes n: "crop h ''None'' 25 = ''None''"
    and u: "crop h ''- Unknown -'' 25 = ''- Unknown -''"
  shows "(who_table h self S = Inr t \<longrightarrow>
           field_names t =
             (if ''f'' \<in> set (switches self) then
                (if elevated self then
                   [''{wPlayer Name'', ''{wOn for'', ''{wIdle'', ''{wCharacter'',
                    ''{wRoom'', ''{wCmds'', ''{wProtocol'', ''{wHost'']
                 else [''{wCharacter'', ''{wOn for'', ''{wIdle'', ''{wLocation''])
              else [''{wCharacter'', ''{wOn for'', ''{wIdle''])
           \<and> list_all2
               (\<lambda>s r. get_puppet s = None \<longrightarrow>
                  (if ''f'' \<in> set (switches self) then
                     (if elevated self then
                        length r = 8 \<and> r ! 3 = CellStr ''None'' \<and> r ! 4 = CellStr ''None''
                      else length r = 4 \<and> r ! 0 = CellStr ''- Unknown -''
                           \<and> r ! 3 = CellStr ''None'')
                   else length r = 3 \<and> r ! 0 = CellStr ''- Unknown -''))
               (filter logged_in (sort_key account_key (get_sessions S)))
               (rows t))
       \<and> (completes self S \<longrightarrow> (\<exists>t. who_table h self S = Inr t))"
proof -
  have x: "field_names t =
             (if ''f'' \<in> set (switches self) then
                (if elevated self then
                   [''{wPlayer Name'', ''{wOn for'', ''{wIdle'', ''{wCharacter'',
                    ''{wRoom'', ''{wCmds'', ''{wProtocol'', ''{wHost'']
                 else [''{wCharacter'', ''{wOn for'', ''{wIdle'', ''{wLocation''])
              else [''{wCharacter'', ''{wOn for'', ''{wIdle''])
           \<and> list_all2
               (\<lambda>s r. get_puppet s = None \<longrightarrow>
                  (if ''f'' \<in> set (switches self) then
                     (if elevated self then
                        length r = 8 \<and> r ! 3 = CellStr ''None'' \<and> r ! 4 = CellStr ''None''
                      else length r = 4 \<and> r ! 0 = CellStr ''- Unknown -''
                           \<and> r ! 3 = CellStr ''None'')
                   else length r = 3 \<and> r ! 0 = CellStr ''- Unknown -''))
               (filter logged_in (sort_key account_key (get_sessions S)))
               (rows t)"
    if t: "who_table h self S = Inr t"
  proof -
    have "list_all2
               (\<lambda>s r. get_puppet s = None \<longrightarrow>
                  (if ''f'' \<in> set (switches self) then
                     (if elevated self then
                        length r = 8 \<and> r ! 3 = CellStr ''None'' \<and> r ! 4 = CellStr ''None''
                      else length r = 4 \<and> r ! 0 = CellStr ''- Unknown -''
                           \<and> r ! 3 = CellStr ''None'')
                   else length r = 3 \<and> r ! 0 = CellStr ''- Unknown -''))
               (filter logged_in (sort_key account_key (get_sessions S)))
               (rows t)"
      by (rule list_all2_mono [OF who_table_all2 [OF t]])
        (auto simp: view_row_def puppet_location_None n u
           dest!: full_row_Inr player_row_Inr who_row_Inr split: if_splits)
    with who_table_Inr [OF t] show ?thesis
      by (simp only: view_names_def simp_thms)
  qed
  have y: "\<exists>t. who_table h self S = Inr t" if "completes self S"
    using that by (simp only: who_table_completes)
  from x y show ?thesis by blast
qed

theorem who_placeholders_witness:
  "crop example_host ''None'' 25 = ''None''
   \<and> crop example_host ''- Unknown -'' 25 = ''- Unknown -''
   \<and> completes who_f_wizard example_sessions
   \<and> get_puppet (filter logged_in (sort_key account_key (get_sessions example_sessions)) ! 0) = None
   \<and> who_table example_host who_f_wizard example_sessions =
       Inr \<lparr>field_names =
              [''{wPlayer Name'', ''{wOn for'', ''{wIdle'', ''{wCharacter'',
               ''{wRoom'', ''{wCmds'', ''{wProtocol'', ''{wHost''],
            rows =
              [[CellStr ''Amy'', CellStr ''601s'', CellStr ''10.0s'', CellStr ''None'',
                CellStr ''None'', CellInt 7, CellStr ''telnet'', CellStr ''10.0.0.1''],
               [CellStr ''Bob'', CellStr ''603s'', CellStr ''12.0s'', CellStr ''Robert'',
                CellStr ''Limbo'', CellInt 7, CellStr ''telnet'', CellStr ''10.0.0.1''],
               [CellStr ''Zachariah-of-the-Western-'', CellStr ''605s'', CellStr ''14.0s'',
                CellStr ''Zedekiah-the-Magnificent-'', CellStr ''The-Great-Hall-of-the-Mou'',
                CellInt 7, CellStr ''telnet'', CellStr ''10.0.0.1'']]\<rparr>
   \<and> who_table example_host who_f_player example_sessions =
       Inr \<lparr>field_names = [''{wCharacter'', ''{wOn for'', ''{wIdle'', ''{wLocation''],
            rows =
              [[CellStr ''- Unknown -'', CellStr ''601s'', CellStr ''10.0s'', CellStr ''None''],
               [CellStr ''Robert'', CellStr ''603s'', CellStr ''12.0s'', CellStr ''Limbo''],
               [CellStr ''Zedekiah-the-Magnificent-'', CellStr ''605s'', CellStr ''14.0s'',
                CellStr ''The-Great-Hall-of-the-Mou'']]\<rparr>"
proof -
  have n: "crop example_host ''None'' 25 = ''None''"
    by (simp add: example_host_def take_crop_def)
  have u: "crop example_host ''- Unknown -'' 25 = ''- Unknown -''"
    by (simp add: example_host_def take_crop_def)
  have d: "completes who_f_wizard example_sessions"
    by (simp add: completes_def row_ready_def has_location_def who_f_wizard_def
          example_sessions_def example_session_def example_puppet_def)
  have p: "get_puppet (filter logged_in (sort_key account_key (get_sessions example_sessions)) ! 0) = None"
    by (simp add: example_defs account_key_def)
  from who_placeholders [OF n u, of who_f_wizard example_sessions] d
  have "\<exists>t. who_table example_host who_f_wizard example_sessions = Inr t"
    by blast
  moreover have "who_table example_host who_f_wizard example_sessions =
       Inr \<lparr>field_names =
              [''{wPlayer Name'', ''{wOn for'', ''{wIdle'', ''{wCharacter'',
               ''{wRoom'', ''{wCmds'', ''{wProtocol'', ''{wHost''],
            rows =
              [[CellStr ''Amy'', CellStr ''601s'', CellStr ''10.0s'', CellStr ''None'',
                CellStr ''None'', CellInt 7, CellStr ''telnet'', CellStr ''10.0.0.1''],
               [CellStr ''Bob'', CellStr ''603s'', CellStr ''12.0s'', CellStr ''Robert'',
                CellStr ''Limbo'', CellInt 7, CellStr ''telnet'', CellStr ''10.0.0.1''],
               [CellStr ''Zachariah-of-the-Western-'', CellStr ''605s'', CellStr ''14.0s'',
                CellStr ''Zedekiah-the-Magnificent-'', CellStr ''The-Great-Hall-of-the-Mou'',
                CellInt 7, CellStr ''telnet'', CellStr ''10.0.0.1'']]\<rparr>"
    by (simp add: who_table_def sorted_sessions_def puppet_location_def example_defs
          new_table_def add_row_def digit_char_def str_int_def address_cell_def Let_def)
  moreover have "who_table example_host who_f_player example_sessions =
       Inr \<lparr>field_names = [''{wCharacter'', ''{wOn for'', ''{wIdle'', ''{wLocation''],
            rows =
              [[CellStr ''- Unknown -'', CellStr ''601s'', CellStr ''10.0s'', CellStr ''None''],
               [CellStr ''Robert'', CellStr ''603s'', CellStr ''12.0s'', CellStr ''Limbo''],
               [CellStr ''Zedekiah-the-Magnificent-'', CellStr ''605s'', CellStr ''14.0s'',
                CellStr ''The-Great-Hall-of-the-Mou'']]\<rparr>"
    by (simp add: who_table_def sorted_sessions_def puppet_location_def example_defs
          new_table_def add_row_def digit_char_def str_int_def Let_def)
  ultimately show ?thesis using n u d p by blast
qed

text \<open>A puppet that is nowhere: both views of \<open>who/f\<close> raise, plain \<open>who\<close> completes.\<close>

lemma who_f_raises_for_puppet_nowhere:
  "who_table example_host who_f_player example_sessions_nowhere = Inl AttributeError
   \<and> who_table example_host who_f_wizard example_sessions_nowhere = Inl AttributeError
   \<and> who_table example_host who_plain example_sessions_nowhere =
       Inr \<lparr>field_names = [''{wCharacter'', ''{wOn for'', ''{wIdle''],
            rows = [[CellStr ''Robert'', CellStr ''601s'', CellStr ''10.0s'']]\<rparr>"
  by (simp add: who_table_def sorted_sessions_def puppet_location_def example_defs
        example_sessions_nowhere_def new_table_def add_row_def digit_char_def str_int_def
        Let_def)

text \<open>
  C10. Every view passes its name and location cells through \<open>crop\<close> with width 25:
  the view of plain \<open>who\<close> the character name (first cell), the view of \<open>who/f\<close> for a
  caller without elevated permission the character name and the location (first and
  fourth cell), the full view the account name, the character name and the location
  (first, fourth and fifth cell). For a \<open>crop\<close> that keeps its result within 25
  characters each of these cells is a string of at most 25 characters.
\<close>

theorem who_crops_every_view:
  assumes c: "\<forall>s. length (crop h s 25) \<le> 25"
  shows "(who_table h self S = Inr t \<longrightarrow>
           list_all2
             (\<lambda>s r.
                if ''f'' \<in> set (switches self) then
                  (if elevated self then
                     (\<exists>a. get_player s = Some a \<and> r ! 0 = CellStr (crop h (name a) 25))
                     \<and> r ! 3 = CellStr (crop h (case get_puppet s of Some p \<Rightarrow> puppet.key p
                                                  | None \<Rightarrow> ''None'') 25)
                     \<and> (\<exists>l. puppet_location (get_puppet s) = Inr l
                             \<and> r ! 4 = CellStr (crop h l 25))
                   else
                     r ! 0 = CellStr (crop h (case get_puppet s of Some p \<Rightarrow> puppet.key p
                                                | None \<Rightarrow> ''- Unknown -'') 25)
                     \<and> (\<exists>l. puppet_location (get_puppet s) = Inr l
                             \<and> r ! 3 = CellStr (crop h l 25)))
                else
                  r ! 0 = CellStr (crop h (case get_puppet s of Some p \<Rightarrow> puppet.key p
                                             | None \<Rightarrow> ''- Unknown -'') 25))
             (filter logged_in (sort_key account_key (get_sessions S)))
             (rows t)
           \<and> (\<forall>r \<in> set (rows t).
                 if ''f'' \<in> set (switches self) then
                   (if elevated self then
                      text_upto 25 (r ! 0) \<and> text_upto 25 (r ! 3) \<and> text_upto 25 (r ! 4)
                    else text_upto 25 (r ! 0) \<and> text_upto 25 (r ! 3))
                 else text_upto 25 (r ! 0)))
       \<and> (completes self S \<longrightarrow> (\<exists>t. who_table h self S = Inr t))"
proof -
  let ?ss = "filter logged_in (sort_key account_key (get_sessions S))"
  let ?P = "\<lambda>(s :: session) r.
                if ''f'' \<in> set (switches self) then
                  (if elevated self then
                     (\<exists>a. get_player s = Some a \<and> r ! 0 = CellStr (crop h (name a) 25))
                     \<and> r ! 3 = CellStr (crop h (case get_puppet s of Some p \<Rightarrow> puppet.key p
                                                  | None \<Rightarrow> ''None'') 25)
                     \<and> (\<exists>l. puppet_location (get_puppet s) = Inr l
                             \<and> r ! 4 = CellStr (crop h l 25))
                   else
                     r ! 0 = CellStr (crop h (case get_puppet s of Some p \<Rightarrow> puppet.key p
                                                | None \<Rightarrow> ''- Unknown -'') 25)
                     \<and> (\<exists>l. puppet_location (get_puppet s) = Inr l
                             \<and> r ! 3 = CellStr (crop h l 25)))
                else
                  r ! 0 = CellStr (crop h (case get_puppet s of Some p \<Rightarrow> puppet.key p
                                             | None \<Rightarrow> ''- Unknown -'') 25)"
  let ?Q = "\<lambda>r. if ''f'' \<in> set (switches self) then
                   (if elevated self then
                      text_upto 25 (r ! 0) \<and> text_upto 25 (r ! 3) \<and> text_upto 25 (r ! 4)
                    else text_upto 25 (r ! 0) \<and> text_upto 25 (r ! 3))
                 else text_upto 25 (r ! 0)"
  have x: "list_all2 ?P ?ss (rows t) \<and> (\<forall>r \<in> set (rows t). ?Q r)"
    if t: "who_table h self S = Inr t"
  proof -
    have a: "list_all2 ?P ?ss (rows t)"
      by (rule list_all2_mono [OF who_table_all2 [OF t]])
        (auto simp: view_row_def dest!: full_row_Inr player_row_Inr who_row_Inr
           split: if_splits)
    have b: "list_all2 (\<lambda>s r. ?Q r) ?ss (rows t)"
      by (rule list_all2_mono [OF a]) (auto simp: text_upto_def c split: if_splits)
    have "\<forall>r \<in> set (rows t). ?Q r"
    proof
      fix r assume "r \<in> set (rows t)"
      with b have "\<exists>s :: session. ?Q r"
        by (rule all2_right)
      then show "?Q r" by simp
    qed
    with a show ?thesis by blast
  qed
  have y: "\<exists>t. who_table h self S = Inr t" if "completes self S"
    using that by (simp only: who_table_completes)
  from x y show ?thesis by blast
qed

theorem who_crops_every_view_witness:
  "(\<forall>s. length (crop example_host s 25) \<le> 25)
   \<and> completes who_plain example_sessions
   \<and> completes who_f_player example_sessions
   \<and> who_table example_host who_plain example_sessions =
       Inr \<lparr>field_names = [''{wCharacter'', ''{wOn for'', ''{wIdle''],
            rows = [[CellStr ''- Unknown -'', CellStr ''601s'', CellStr ''10.0s''],
                    [CellStr ''Robert'', CellStr ''603s'', CellStr ''12.0s''],
                    [CellStr ''Zedekiah-the-Magnificent-'', CellStr ''605s'',
                     CellStr ''14.0s'']]\<rparr>
   \<and> who_table example_host who_f_player example_sessions =
       Inr \<lparr>field_names = [''{wCharacter'', ''{wOn for'', ''{wIdle'', ''{wLocation''],
            rows =
              [[CellStr ''- Unknown -'', CellStr ''601s'', CellStr ''10.0s'', CellStr ''None''],
               [CellStr ''Robert'', CellStr ''603s'', CellStr ''12.0s'', CellStr ''Limbo''],
               [CellStr ''Zedekiah-the-Magnificent-'', CellStr ''605s'', CellStr ''14.0s'',
                CellStr ''The-Great-Hall-of-the-Mou'']]\<rparr>"
proof -
  have c: "\<forall>s. length (crop example_host s 25) \<le> 25"
    by (simp add: example_host_def take_crop_def)
  have p: "completes who_plain example_sessions"
    by (simp add: completes_def row_ready_def who_plain_def example_sessions_def
          example_session_def)
  have q: "completes who_f_player example_sessions"
    by (simp add: completes_def row_ready_def has_location_def elevated_def who_f_player_def
          account_def example_sessions_def example_session_def example_puppet_def)
  from who_crops_every_view [OF c, of who_plain example_sessions] p
  have "\<exists>t. who_table example_host who_plain example_sessions = Inr t"
    by blast
  moreover from who_crops_every_view [OF c, of who_f_player example_sessions] q
  have "\<exists>t. who_table example_host who_f_player example_sessions = Inr t"
    by blast
  moreover have "who_table example_host who_plain example_sessions =
       Inr \<lparr>field_names = [''{wCharacter'', ''{wOn for'', ''{wIdle''],
            rows = [[CellStr ''- Unknown -'', CellStr ''601s'', CellStr ''10.0s''],
                    [CellStr ''Robert'', CellStr ''603s'', CellStr ''12.0s''],
                    [CellStr ''Zedekiah-the-Magnificent-'', CellStr ''605s'',
                     CellStr ''14.0s'']]\<rparr>"
    by (simp add: who_table_def sorted_sessions_def example_defs new_table_def add_row_def
          digit_char_def str_int_def Let_def)
  moreover have "who_table example_host who_f_player example_sessions =
       Inr \<lparr>field_names = [''{wCharacter'', ''{wOn for'', ''{wIdle'', ''{wLocation''],
            rows =
              [[CellStr ''- Unknown -'', CellStr ''601s'', CellStr ''10.0s'', CellStr ''None''],
               [CellStr ''Robert'', CellStr ''603s'', CellStr ''12.0s'', CellStr ''Limbo''],
               [CellStr ''Zedekiah-the-Magnificent-'', CellStr ''605s'', CellStr ''14.0s'',
                CellStr ''The-Great-Hall-of-the-Mou'']]\<rparr>"
    by (simp add: who_table_def sorted_sessions_def puppet_location_def example_defs
          new_table_def add_row_def digit_char_def str_int_def Let_def)
  ultimately show ?thesis using c p q by blast
qed

section \<open>What the report depends on\<close>

lemma insort_key_same_order:
  "\<forall>y\<in>set ys. (f x \<le> f y) = (g x \<le> g y) \<Longrightarrow> insort_key f x ys = insort_key g x ys"
  by (induction ys) simp_all

lemma sort_key_same_order:
  "\<forall>x\<in>set xs. \<forall>y\<in>set xs. (f x \<le> f y) = (g x \<le> g y) \<Longrightarrow> sort_key f xs = sort_key g xs"
proof (induction xs)
  case Nil
  show ?case by simp
next
  case (Cons x xs)
  then have "sort_key f xs = sort_key g xs"
    by simp
  moreover from Cons.prems have "\<forall>y\<in>set (sort_key g xs). (f x \<le> f y) = (g x \<le> g y)"
    by simp
  ultimately show ?case
    by (simp add: insort_key_same_order)
qed

lemma logged_in_hide: "logged_in (hide s) = logged_in s"
  by (simp add: hide_def)

lemma player_row_hide: "player_row h k (hide s) = player_row h k s"
  by (simp add: player_row_def hide_def split: sum.splits)

lemma no_account_hide: "(session.player (hide s) = None) = (session.player s = None)"
  by (simp add: hide_def)

lemma hide_eq_logged_in: "hide a = hide b \<Longrightarrow> logged_in a = logged_in b"
  by (metis logged_in_hide)

lemma hide_eq_player_row: "hide a = hide b \<Longrightarrow> player_row h k a = player_row h k b"
  by (metis player_row_hide)

lemma hide_eq_no_account:
  "hide a = hide b \<Longrightarrow> (session.player a = None) = (session.player b = None)"
  by (metis no_account_hide)

lemma rows_from_pairs:
  "\<forall>(a, b)\<in>set qs. hide a = hide b \<Longrightarrow>
     rows_from (player_row h) k (filter logged_in (map fst qs)) =
     rows_from (player_row h) k (filter logged_in (map snd qs))"
proof (induction qs arbitrary: k)
  case Nil
  show ?case by simp
next
  case (Cons q qs)
  obtain a b where q: "q = (a, b)" by (cases q)
  with Cons.prems have e: "hide a = hide b" by simp
  from Cons have "rows_from (player_row h) j (filter logged_in (map fst qs)) =
     rows_from (player_row h) j (filter logged_in (map snd qs))" for j
    by simp
  with hide_eq_logged_in [OF e] hide_eq_player_row [OF e, of h] show ?case
    by (simp add: q split: sum.splits)
qed

text \<open>What a caller without elevated permission gets from \<open>who/f\<close>.\<close>

lemma who_table_player_view:
  assumes "''f'' \<in> set (switches self)" and "\<not> elevated self"
  shows "who_table h self S =
     (if \<forall>s\<in>set (get_sessions S). session.player s \<noteq> None then
        (case rows_from (player_row h) 0
                (filter logged_in (sort_key account_key (get_sessions S))) of
           Inl e \<Rightarrow> Inl e
         | Inr rs \<Rightarrow>
             Inr \<lparr>field_names = [''{wCharacter'', ''{wOn for'', ''{wIdle'', ''{wLocation''],
                  rows = rs\<rparr>)
      else Inl AttributeError)"
proof -
  have v: "view_row h self = player_row h"
    using assms by (simp add: view_row_def)
  have n: "view_names self = [''{wCharacter'', ''{wOn for'', ''{wIdle'', ''{wLocation'']"
    using assms by (simp add: view_names_def)
  show ?thesis
    by (simp only: who_table_eq v n)
qed

lemma player_view_pairs:
  assumes f: "''f'' \<in> set (switches self)" and e: "\<not> elevated self"
    and p: "\<forall>(a, b)\<in>set zs. hide a = hide b"
    and o: "\<forall>x\<in>set zs. \<forall>y\<in>set zs.
              (account_key (fst x) \<le> account_key (fst y)) =
              (account_key (snd x) \<le> account_key (snd y))"
    and a1: "get_sessions S = map fst zs"
    and a2: "get_sessions S' = map snd zs"
  shows "who_table h self S = who_table h self S'"
proof -
  let ?qs = "sort_key (\<lambda>z. account_key (fst z)) zs"
  have q: "sort_key (\<lambda>z. account_key (snd z)) zs = ?qs"
    using o by (intro sort_key_same_order) simp
  have "\<forall>(a, b)\<in>set ?qs. hide a = hide b"
    using p by simp
  then have r: "rows_from (player_row h) 0 (filter logged_in (map fst ?qs)) =
     rows_from (player_row h) 0 (filter logged_in (map snd ?qs))"
    by (rule rows_from_pairs)
  have n: "(\<forall>s\<in>set (map fst zs). session.player s \<noteq> None) =
           (\<forall>s\<in>set (map snd zs). session.player s \<noteq> None)"
    using p by (force dest: hide_eq_no_account)
  have s1: "sort_key account_key (map fst zs) = map fst ?qs"
    by (rule sort_key_map)
  have s2: "sort_key account_key (map snd zs) = map snd ?qs"
    by (simp only: sort_key_map q)
  show ?thesis
    by (simp only: who_table_player_view [OF f e] a1 a2 s1 s2 r n)
qed

text \<open>
  Against C3 as stated: two session lists that differ only in which account owns which
  session, so that they agree once account names, protocols and addresses are blanked.
  A caller without elevated permission gets the two rows of \<open>who/f\<close> in opposite order.
\<close>

theorem who_player_view_depends_on_account_order:
  "''f'' \<in> set (switches who_f_player)
   \<and> \<not> check_permstring (CmdWho.player who_f_player) ''Immortals''
   \<and> \<not> check_permstring (CmdWho.player who_f_player) ''Wizards''
   \<and> map hide (get_sessions xena_yuri) = map hide (get_sessions yuri_xena)
   \<and> player_count xena_yuri = player_count yuri_xena
   \<and> who_table example_host who_f_player xena_yuri =
       Inr \<lparr>field_names = [''{wCharacter'', ''{wOn for'', ''{wIdle'', ''{wLocation''],
            rows = [[CellStr ''Alpha'', CellStr ''601s'', CellStr ''10.0s'', CellStr ''Limbo''],
                    [CellStr ''Beta'', CellStr ''603s'', CellStr ''12.0s'', CellStr ''Limbo'']]\<rparr>
   \<and> who_table example_host who_f_player yuri_xena =
       Inr \<lparr>field_names = [''{wCharacter'', ''{wOn for'', ''{wIdle'', ''{wLocation''],
            rows = [[CellStr ''Beta'', CellStr ''601s'', CellStr ''10.0s'', CellStr ''Limbo''],
                    [CellStr ''Alpha'', CellStr ''603s'', CellStr ''12.0s'', CellStr ''Limbo'']]\<rparr>
   \<and> who_table example_host who_f_player xena_yuri \<noteq> who_table example_host who_f_player yuri_xena"
  by (simp add: who_table_def sorted_sessions_def puppet_location_def example_defs
        xena_yuri_def yuri_xena_def hide_def anonymous_def new_table_def add_row_def
        digit_char_def str_int_def Let_def)

text \<open>
  C3, as amended. A caller without the permission Immortals or Wizards who issues \<open>who\<close>
  with the \<open>f\<close> switch gets the four columns character, connection time, idle time and
  location, none of them an account name, a protocol identifier or an address. The
  report depends on the account names only through the order in which the account keys
  sort: two states of the server whose session lists agree once account keys and names,
  protocol identifiers and addresses are blanked (\<open>hide\<close>), whose account keys compare
  alike (\<open>same_order\<close>) and whose account counts are equal yield the same table or the
  same error, and the same messages.
\<close>

theorem who_player_view_hides:
  assumes f: "''f'' \<in> set (switches self)"
    and i: "\<not> check_permstring (CmdWho.player self) ''Immortals''"
    and z: "\<not> check_permstring (CmdWho.player self) ''Wizards''"
    and s: "map hide (get_sessions (SESSIONS w)) = map hide (get_sessions (SESSIONS w'))"
    and o: "same_order (get_sessions (SESSIONS w)) (get_sessions (SESSIONS w'))"
    and c: "player_count (SESSIONS w) = player_count (SESSIONS w')"
    and b: "outbox w = outbox w'"
  shows "who_table h self (SESSIONS w) = who_table h self (SESSIONS w')
       \<and> fst (func h self w) = fst (func h self w')
       \<and> outbox (snd (func h self w)) = outbox (snd (func h self w'))
       \<and> (who_table h self (SESSIONS w) = Inr t \<longrightarrow>
            field_names t = [''{wCharacter'', ''{wOn for'', ''{wIdle'', ''{wLocation''])
       \<and> (completes self (SESSIONS w) \<longrightarrow> (\<exists>t. who_table h self (SESSIONS w) = Inr t))"
proof -
  let ?ss = "get_sessions (SESSIONS w)" and ?ts = "get_sessions (SESSIONS w')"
  let ?zs = "zip ?ss ?ts"
  from i z have e: "\<not> elevated self" by (simp add: elevated_def)
  from s have l: "length ?ss = length ?ts"
    by (rule map_eq_imp_length_eq)
  from s have "list_all2 (=) (map hide ?ss) (map hide ?ts)"
    by (simp add: list.rel_eq)
  then have "list_all2 (\<lambda>a b. hide a = hide b) ?ss ?ts"
    by (simp add: list.rel_map)
  then have p: "\<forall>(a, b)\<in>set ?zs. hide a = hide b"
    by (simp add: list_all2_iff)
  from o have q: "\<forall>x\<in>set ?zs. \<forall>y\<in>set ?zs.
              (account_key (fst x) \<le> account_key (fst y)) =
              (account_key (snd x) \<le> account_key (snd y))"
    by (simp add: same_order_def split_beta)
  from l have m: "?ss = map fst ?zs" "?ts = map snd ?zs"
    by simp_all
  have t: "who_table h self (SESSIONS w) = who_table h self (SESSIONS w')"
    by (rule player_view_pairs [OF f e p q m])
  have r: "fst (func h self w) = fst (func h self w')"
    by (simp add: func_def t split: sum.splits)
  have u: "outbox (snd (func h self w)) = outbox (snd (func h self w'))"
    by (simp add: func_def msg_def t c b Let_def split: sum.splits)
  have n: "field_names t = [''{wCharacter'', ''{wOn for'', ''{wIdle'', ''{wLocation'']"
    if "who_table h self (SESSIONS w) = Inr t"
    using who_table_Inr [OF that] f e by (simp add: view_names_def)
  have y: "\<exists>t. who_table h self (SESSIONS w) = Inr t" if "completes self (SESSIONS w)"
    using that by (simp only: who_table_completes)
  from t r u n y show ?thesis by blast
qed

theorem who_player_view_hides_witness:
  "''f'' \<in> set (switches who_f_player)
   \<and> \<not> check_permstring (CmdWho.player who_f_player) ''Immortals''
   \<and> \<not> check_permstring (CmdWho.player who_f_player) ''Wizards''
   \<and> map hide (get_sessions (SESSIONS example_world)) =
       map hide (get_sessions (SESSIONS (example_world\<lparr>SESSIONS := example_sessions_renamed\<rparr>)))
   \<and> same_order (get_sessions (SESSIONS example_world))
        (get_sessions (SESSIONS (example_world\<lparr>SESSIONS := example_sessions_renamed\<rparr>)))
   \<and> map account_key (get_sessions (SESSIONS example_world)) =
       [''Bob'', ''Zachariah-of-the-Western-Isles'', ''Gus'', ''Amy'']
   \<and> map account_key
         (get_sessions (SESSIONS (example_world\<lparr>SESSIONS := example_sessions_renamed\<rparr>))) =
       [''Bartholomew'', ''Zoe'', ''Gwendolyn'', ''Abigail'']
   \<and> map protocol_key
         (get_sessions (SESSIONS (example_world\<lparr>SESSIONS := example_sessions_renamed\<rparr>))) =
       [''websocket'', ''websocket'', ''websocket'', ''websocket'']
   \<and> completes who_f_player example_sessions
   \<and> who_table example_host who_f_player example_sessions =
       who_table example_host who_f_player example_sessions_renamed
   \<and> outbox (snd (func example_host who_f_player example_world)) =
       outbox (snd (func example_host who_f_player
                      (example_world\<lparr>SESSIONS := example_sessions_renamed\<rparr>)))"
proof -
  let ?w = "example_world\<lparr>SESSIONS := example_sessions_renamed\<rparr>"
  have f: "''f'' \<in> set (switches who_f_player)"
    by (simp add: who_f_player_def)
  have i: "\<not> check_permstring (CmdWho.player who_f_player) ''Immortals''"
    by (simp add: who_f_player_def account_def)
  have z: "\<not> check_permstring (CmdWho.player who_f_player) ''Wizards''"
    by (simp add: who_f_player_def account_def)
  have k: "map account_key (get_sessions (SESSIONS example_world)) =
       [''Bob'', ''Zachariah-of-the-Western-Isles'', ''Gus'', ''Amy'']"
    by (simp add: example_defs account_key_def)
  have k': "map account_key (get_sessions (SESSIONS ?w)) =
       [''Bartholomew'', ''Zoe'', ''Gwendolyn'', ''Abigail'']"
    by (simp add: example_defs example_sessions_renamed_def renamed_def new_name_def
          account_key_def)
  have s: "map hide (get_sessions (SESSIONS example_world)) = map hide (get_sessions (SESSIONS ?w))"
    by (simp add: example_defs example_sessions_renamed_def renamed_def hide_def anonymous_def)
  have o: "same_order (get_sessions (SESSIONS example_world)) (get_sessions (SESSIONS ?w))"
    by (simp add: same_order_def example_defs example_sessions_renamed_def renamed_def
          new_name_def account_key_def)
  have c: "player_count (SESSIONS example_world) = player_count (SESSIONS ?w)"
    by (simp add: example_world_def example_sessions_renamed_def)
  have b: "outbox example_world = outbox ?w"
    by simp
  have d: "map protocol_key (get_sessions (SESSIONS ?w)) =
       [''websocket'', ''websocket'', ''websocket'', ''websocket'']"
    by (simp add: example_defs example_sessions_renamed_def renamed_def)
  have q: "completes who_f_player example_sessions"
    by (simp add: completes_def row_ready_def has_location_def elevated_def who_f_player_def
          account_def example_sessions_def example_session_def example_puppet_def)
  from who_player_view_hides [OF f i z s o c b, of example_host]
  have "who_table example_host who_f_player (SESSIONS example_world) =
        who_table example_host who_f_player (SESSIONS ?w)
      \<and> outbox (snd (func example_host who_f_player example_world)) =
        outbox (snd (func example_host who_f_player ?w))"
    by blast
  then have r: "who_table example_host who_f_player example_sessions =
        who_table example_host who_f_player example_sessions_renamed
      \<and> outbox (snd (func example_host who_f_player example_world)) =
        outbox (snd (func example_host who_f_player ?w))"
    by (simp add: example_world_def)
  from f i z s o k k' d q r show ?thesis by blast
qed

section \<open>The message and the state\<close>

lemma who_string_eq:
  "who_string h t n =
     ''{wPlayers:{n'' @ [CHR 0x0A] @ table_str h t @ [CHR 0x0A]
     @ (if n = 1 then ''One unique account logged in.''
        else str_int n @ '' unique accounts logged in.'')"
  by (simp add: who_string_def Let_def)

lemma str_int_0: "str_int 0 = ''0''"
  by (simp add: str_int_def digit_char_def)

lemma func_Inr:
  "who_table h self (SESSIONS w) = Inr t \<Longrightarrow>
     func h self w =
       (Inr (),
        w\<lparr>outbox := outbox w @
            [(player.key (CmdWho.player self),
              who_string h t (player_count (SESSIONS w)))]\<rparr>)"
  by (simp add: func_def msg_def Let_def)


text \<open>
  C4. The message that \<open>who\<close> sends ends with a line that reports the account count
  the session handler returns: \<open>One unique account logged in.\<close> when the count is 1,
  and otherwise the count in decimal followed by \<open>unique accounts logged in.\<close>, in the
  plural. A count of zero takes the second form and reads
  \<open>0 unique accounts logged in.\<close>; the text \<open>No players\<close> is never produced.
\<close>

theorem who_summary_line:
  "(who_table h self (SESSIONS w) = Inr t \<longrightarrow>
      func h self w =
        (Inr (),
         w\<lparr>outbox := outbox w @
            [(player.key (CmdWho.player self),
              ''{wPlayers:{n'' @ [CHR 0x0A] @ table_str h t @ [CHR 0x0A]
              @ (if player_count (SESSIONS w) = 1 then ''One unique account logged in.''
                 else str_int (player_count (SESSIONS w))
                      @ '' unique accounts logged in.''))]\<rparr>))
   \<and> (completes self (SESSIONS w) \<longrightarrow> (\<exists>t. who_table h self (SESSIONS w) = Inr t))
   \<and> who_string h t 1 =
       ''{wPlayers:{n'' @ [CHR 0x0A] @ table_str h t @ [CHR 0x0A] @ ''One unique account logged in.''
   \<and> who_string h t 0 =
       ''{wPlayers:{n'' @ [CHR 0x0A] @ table_str h t @ [CHR 0x0A] @ ''0 unique accounts logged in.''
   \<and> who_string h t 3 =
       ''{wPlayers:{n'' @ [CHR 0x0A] @ table_str h t @ [CHR 0x0A] @ ''3 unique accounts logged in.''"
proof -
  have a: "func h self w =
        (Inr (),
         w\<lparr>outbox := outbox w @
            [(player.key (CmdWho.player self),
              ''{wPlayers:{n'' @ [CHR 0x0A] @ table_str h t @ [CHR 0x0A]
              @ (if player_count (SESSIONS w) = 1 then ''One unique account logged in.''
                 else str_int (player_count (SESSIONS w))
                      @ '' unique accounts logged in.''))]\<rparr>)"
    if "who_table h self (SESSIONS w) = Inr t"
    by (simp only: func_Inr [OF that] who_string_eq)
  have y: "\<exists>t. who_table h self (SESSIONS w) = Inr t" if "completes self (SESSIONS w)"
    using that by (simp only: who_table_completes)
  have b: "who_string h t 1 =
       ''{wPlayers:{n'' @ [CHR 0x0A] @ table_str h t @ [CHR 0x0A] @ ''One unique account logged in.''"
    by (simp add: who_string_eq)
  have c: "who_string h t 0 =
       ''{wPlayers:{n'' @ [CHR 0x0A] @ table_str h t @ [CHR 0x0A] @ ''0 unique accounts logged in.''"
    by (simp add: who_string_eq str_int_0)
  have d: "who_string h t 3 =
       ''{wPlayers:{n'' @ [CHR 0x0A] @ table_str h t @ [CHR 0x0A] @ ''3 unique accounts logged in.''"
    by (simp add: who_string_eq str_int_def digit_char_def)
  from a y b c d show ?thesis by blast
qed


text \<open>The table of plain \<open>who\<close> on the example, and on a server without sessions.\<close>

lemma example_plain_table:
  "who_table example_host who_plain example_sessions =
       Inr \<lparr>field_names = [''{wCharacter'', ''{wOn for'', ''{wIdle''],
            rows = [[CellStr ''- Unknown -'', CellStr ''601s'', CellStr ''10.0s''],
                    [CellStr ''Robert'', CellStr ''603s'', CellStr ''12.0s''],
                    [CellStr ''Zedekiah-the-Magnificent-'', CellStr ''605s'',
                     CellStr ''14.0s'']]\<rparr>"
  by (simp add: who_table_def sorted_sessions_def example_defs new_table_def add_row_def
        digit_char_def str_int_def Let_def)

lemma empty_plain_table:
  "who_table example_host who_plain \<lparr>get_sessions = [], player_count = 0\<rparr> =
       Inr \<lparr>field_names = [''{wCharacter'', ''{wOn for'', ''{wIdle''], rows = []\<rparr>"
  by (simp add: who_table_def sorted_sessions_def who_plain_def new_table_def)

theorem who_summary_line_witness:
  "completes who_plain example_sessions
   \<and> func example_host who_plain example_world =
       (Inr (),
        \<lparr>SESSIONS = example_sessions,
         outbox =
           [(''Amy'',
             ''{wPlayers:{n'' @ [CHR 0x0A]
             @ ''{wCharacter {wOn for {wIdle '' @ [CHR 0x0A]
             @ ''- Unknown - 601s 10.0s '' @ [CHR 0x0A]
             @ ''Robert 603s 12.0s '' @ [CHR 0x0A]
             @ ''Zedekiah-the-Magnificent- 605s 14.0s '' @ [CHR 0x0A]
             @ [CHR 0x0A] @ ''3 unique accounts logged in.'')]\<rparr>)
   \<and> outbox (snd (func example_host who_plain
                    (example_world\<lparr>SESSIONS := example_sessions\<lparr>player_count := 1\<rparr>\<rparr>))) =
       [(''Amy'',
         ''{wPlayers:{n'' @ [CHR 0x0A]
         @ ''{wCharacter {wOn for {wIdle '' @ [CHR 0x0A]
         @ ''- Unknown - 601s 10.0s '' @ [CHR 0x0A]
         @ ''Robert 603s 12.0s '' @ [CHR 0x0A]
         @ ''Zedekiah-the-Magnificent- 605s 14.0s '' @ [CHR 0x0A]
         @ [CHR 0x0A] @ ''One unique account logged in.'')]
   \<and> outbox (snd (func example_host who_plain
                    (example_world\<lparr>SESSIONS := \<lparr>get_sessions = [], player_count = 0\<rparr>\<rparr>))) =
       [(''Amy'',
         ''{wPlayers:{n'' @ [CHR 0x0A] @ ''{wCharacter {wOn for {wIdle '' @ [CHR 0x0A, CHR 0x0A]
         @ ''0 unique accounts logged in.'')]"
proof -
  let ?t = "\<lparr>field_names = [''{wCharacter'', ''{wOn for'', ''{wIdle''],
            rows = [[CellStr ''- Unknown -'', CellStr ''601s'', CellStr ''10.0s''],
                    [CellStr ''Robert'', CellStr ''603s'', CellStr ''12.0s''],
                    [CellStr ''Zedekiah-the-Magnificent-'', CellStr ''605s'',
                     CellStr ''14.0s'']]\<rparr>"
  let ?e = "\<lparr>field_names = [''{wCharacter'', ''{wOn for'', ''{wIdle''], rows = []\<rparr>"
  let ?w1 = "example_world\<lparr>SESSIONS := example_sessions\<lparr>player_count := 1\<rparr>\<rparr>"
  let ?w0 = "example_world\<lparr>SESSIONS := \<lparr>get_sessions = [], player_count = 0\<rparr>\<rparr>"
  have c: "completes who_plain example_sessions"
    by (simp add: completes_def row_ready_def who_plain_def example_sessions_def
          example_session_def)
  have r: "table_str example_host ?t =
             ''{wCharacter {wOn for {wIdle '' @ [CHR 0x0A]
             @ ''- Unknown - 601s 10.0s '' @ [CHR 0x0A]
             @ ''Robert 603s 12.0s '' @ [CHR 0x0A]
             @ ''Zedekiah-the-Magnificent- 605s 14.0s '' @ [CHR 0x0A]"
    by (simp add: example_host_def plain_table_def cell_text_def)
  have r0: "table_str example_host ?e = ''{wCharacter {wOn for {wIdle '' @ [CHR 0x0A]"
    by (simp add: example_host_def plain_table_def)
  have t3: "who_table example_host who_plain (SESSIONS example_world) = Inr ?t"
    by (simp add: example_world_def example_plain_table)
  have t1: "who_table example_host who_plain (SESSIONS ?w1) = Inr ?t"
    using example_plain_table by (simp add: who_table_def)
  have t0: "who_table example_host who_plain (SESSIONS ?w0) = Inr ?e"
    by (simp add: empty_plain_table)
  from who_summary_line [THEN conjunct1, of example_host who_plain example_world ?t] t3
  have a: "func example_host who_plain example_world =
       (Inr (),
        \<lparr>SESSIONS = example_sessions,
         outbox =
           [(''Amy'',
             ''{wPlayers:{n'' @ [CHR 0x0A]
             @ ''{wCharacter {wOn for {wIdle '' @ [CHR 0x0A]
             @ ''- Unknown - 601s 10.0s '' @ [CHR 0x0A]
             @ ''Robert 603s 12.0s '' @ [CHR 0x0A]
             @ ''Zedekiah-the-Magnificent- 605s 14.0s '' @ [CHR 0x0A]
             @ [CHR 0x0A] @ ''3 unique accounts logged in.'')]\<rparr>)"
    by (simp add: r) (simp add: example_world_def example_sessions_def who_plain_def
          account_def str_int_def digit_char_def)
  from who_summary_line [THEN conjunct1, of example_host who_plain ?w1 ?t] t1
  have b: "outbox (snd (func example_host who_plain ?w1)) =
       [(''Amy'',
         ''{wPlayers:{n'' @ [CHR 0x0A]
         @ ''{wCharacter {wOn for {wIdle '' @ [CHR 0x0A]
         @ ''- Unknown - 601s 10.0s '' @ [CHR 0x0A]
         @ ''Robert 603s 12.0s '' @ [CHR 0x0A]
         @ ''Zedekiah-the-Magnificent- 605s 14.0s '' @ [CHR 0x0A]
         @ [CHR 0x0A] @ ''One unique account logged in.'')]"
    by (simp add: r) (simp add: example_world_def who_plain_def account_def)
  from who_summary_line [THEN conjunct1, of example_host who_plain ?w0 ?e] t0
  have d: "outbox (snd (func example_host who_plain ?w0)) =
       [(''Amy'',
         ''{wPlayers:{n'' @ [CHR 0x0A] @ ''{wCharacter {wOn for {wIdle '' @ [CHR 0x0A, CHR 0x0A]
         @ ''0 unique accounts logged in.'')]"
    by (simp add: r0 str_int_0) (simp add: example_world_def who_plain_def account_def)
  from c a b d show ?thesis by blast
qed


section \<open>Properties of the parser\<close>

lemma lstrip_no_space: "lstrip s = c # rest \<Longrightarrow> \<not> is_space c"
  by (simp add: lstrip_def dropWhile_eq_Cons_conv)

lemma lstrip_Cons: "\<not> is_space c \<Longrightarrow> lstrip (c # t) = c # t"
  by (simp add: lstrip_def)

lemma rstrip_Cons:
  "\<not> is_space c \<Longrightarrow>
     rstrip (c # rest) = c # (if \<forall>x\<in>set rest. is_space x then [] else rstrip rest)"
  by (simp add: rstrip_def dropWhile_append)

lemma strip_Cons: "\<not> is_space c \<Longrightarrow> \<exists>t. strip (c # rest) = c # t"
  by (simp add: strip_def lstrip_Cons rstrip_Cons)

lemma strip_Nil: "strip [] = []"
  by (simp add: strip_def lstrip_def rstrip_def)

lemma set_lstrip: "set (lstrip s) \<subseteq> set s"
  by (auto simp: lstrip_def dest: set_dropWhileD)

lemma set_rstrip: "set (rstrip s) \<subseteq> set s"
  by (auto simp: rstrip_def dest: set_dropWhileD)

lemma set_strip: "set (strip s) \<subseteq> set s"
  using set_lstrip set_rstrip by (fastforce simp: strip_def)

lemma lstrip_lstrip: "lstrip (lstrip s) = lstrip s"
  by (simp add: lstrip_def)

text \<open>What step 1 leaves is empty or starts with a character that is neither a slash
  nor whitespace.\<close>

lemma strip_switches_clean: "clean (snd (strip_switches s))"
proof (induction s rule: strip_switches.induct)
  case (1 s)
  show ?case
  proof (cases "lstrip s")
    case Nil
    then show ?thesis
      by (subst strip_switches.simps) (simp add: clean_def)
  next
    case (Cons c rest)
    show ?thesis
    proof (cases "c = CHR ''/''")
      case True
      from "1.IH" [OF Cons True refl]
      have "clean (snd (strip_switches (dropWhile (\<lambda>x. \<not> is_space x) rest)))" .
      then show ?thesis
        by (subst strip_switches.simps) (simp add: Cons True split_def Let_def)
    next
      case False
      from Cons have "\<not> is_space c" by (rule lstrip_no_space)
      with False show ?thesis
        by (subst strip_switches.simps) (simp add: Cons clean_def)
    qed
  qed
qed

lemma strip_switches_no_slash:
  assumes "CHR ''/'' \<notin> set s"
  shows "strip_switches s = ([], lstrip s)"
proof (cases "lstrip s")
  case Nil
  then show ?thesis by (subst strip_switches.simps) simp
next
  case (Cons c rest)
  then have "c \<in> set s" using set_lstrip [of s] by auto
  with assms have "c \<noteq> CHR ''/''" by auto
  then show ?thesis by (subst strip_switches.simps) (simp add: Cons)
qed

lemma strip_switches_clean_arg:
  assumes "clean a" 
  shows "fst (strip_switches a) = []"
proof (cases a)
  case Nil
  then show ?thesis by (subst strip_switches.simps) (simp add: lstrip_def)
next
  case (Cons c t)
  with assms have c: "c \<noteq> CHR ''/''" "\<not> is_space c" by (simp_all add: clean_def)
  then have "lstrip a = c # t" by (simp add: Cons lstrip_Cons)
  with c show ?thesis by (subst strip_switches.simps) simp
qed

lemma clean_strip: "clean r \<Longrightarrow> clean (strip r)"
proof (cases r)
  case Nil
  then show ?thesis by (simp add: strip_Nil clean_def)
next
  case (Cons c t)
  assume "clean r"
  with Cons have c: "c \<noteq> CHR ''/''" "\<not> is_space c" by (simp_all add: clean_def)
  from strip_Cons [OF c(2), of t] obtain u where "strip (c # t) = c # u" by blast
  with c Cons show ?thesis by (simp add: clean_def)
qed

lemma args_parse: "args (parse raw_args) = strip (snd (strip_switches raw_args))"
  by (simp add: parse_def split_def Let_def)

lemma switches_parse: "MuxCommand.switches (parse raw_args) = fst (strip_switches raw_args)"
  by (simp add: parse_def split_def Let_def)

text \<open>
  C5. For a raw argument string that holds no slash and no equals sign the parser
  yields no switches, \<open>args\<close> is the trimmed input, \<open>lhs\<close> equals \<open>args\<close> and \<open>rhs\<close> is
  absent. For every input, \<open>rhslist\<close> is the comma list of \<open>rhs\<close> when \<open>rhs\<close> is present
  and is empty when \<open>rhs\<close> is absent.
\<close>

theorem parse_without_slash_and_equals:
  "(CHR ''/'' \<notin> set raw_args \<and> CHR ''='' \<notin> set raw_args \<longrightarrow>
      MuxCommand.switches (parse raw_args) = []
      \<and> args (parse raw_args) = strip raw_args
      \<and> lhs (parse raw_args) = args (parse raw_args)
      \<and> rhs (parse raw_args) = None)
   \<and> rhslist (parse raw_args) =
       (case rhs (parse raw_args) of
          None \<Rightarrow> []
        | Some x \<Rightarrow> map strip (split_on (CHR '','') x))"
proof -
  have b: "rhslist (parse raw_args) =
       (case rhs (parse raw_args) of
          None \<Rightarrow> []
        | Some x \<Rightarrow> map strip (split_on (CHR '','') x))"
    by (simp add: parse_def split_def Let_def)
  have a: "MuxCommand.switches (parse raw_args) = []
      \<and> args (parse raw_args) = strip raw_args
      \<and> lhs (parse raw_args) = args (parse raw_args)
      \<and> rhs (parse raw_args) = None"
    if s: "CHR ''/'' \<notin> set raw_args" and e: "CHR ''='' \<notin> set raw_args"
  proof -
    from s have w: "strip_switches raw_args = ([], lstrip raw_args)"
      by (rule strip_switches_no_slash)
    have g: "strip (lstrip raw_args) = strip raw_args"
      by (simp add: strip_def lstrip_lstrip)
    from e have "CHR ''='' \<notin> set (strip raw_args)"
      using set_strip [of raw_args] by auto
    with w g show ?thesis
      by (simp add: parse_def Let_def)
  qed
  from a b show ?thesis by blast
qed

lemma strip_strip: "strip (strip s) = strip s"
proof (cases "lstrip s")
  case Nil
  then have "strip s = []" by (simp add: strip_def rstrip_def)
  then show ?thesis by (simp only: strip_Nil)
next
  case (Cons c t)
  then have c: "\<not> is_space c" by (rule lstrip_no_space)
  have r: "rstrip (rstrip x) = rstrip x" for x
    by (simp add: rstrip_def)
  from rstrip_Cons [OF c, of t] obtain u where u: "rstrip (c # t) = c # u" by simp
  then have "lstrip (rstrip (c # t)) = rstrip (c # t)"
    by (simp add: lstrip_Cons c)
  then show ?thesis
    by (simp add: strip_def Cons r)
qed

lemma strip_switches_clean_eq:
  assumes "clean a"
  shows "strip_switches a = ([], a)"
proof (cases a)
  case Nil
  then show ?thesis by (subst strip_switches.simps) (simp add: lstrip_def)
next
  case (Cons c t)
  with assms have c: "c \<noteq> CHR ''/''" "\<not> is_space c" by (simp_all add: clean_def)
  then have "lstrip a = c # t" by (simp add: Cons lstrip_Cons)
  with c Cons show ?thesis by (subst strip_switches.simps) simp
qed

text \<open>
  C6. Switch extraction is idempotent: parsing the \<open>args\<close> that a first parse has left
  yields no switches, and leaves \<open>args\<close> as it is.
\<close>

theorem switch_extraction_idempotent:
  "MuxCommand.switches (parse (args (parse raw_args))) = []
   \<and> args (parse (args (parse raw_args))) = args (parse raw_args)"
proof -
  have c: "clean (args (parse raw_args))"
    by (simp only: args_parse clean_strip strip_switches_clean)
  then have "strip_switches (args (parse raw_args)) = ([], args (parse raw_args))"
    by (rule strip_switches_clean_eq)
  then have "args (parse (args (parse raw_args))) = strip (args (parse raw_args))"
    by (simp add: args_parse)
  also have "\<dots> = args (parse raw_args)"
    by (simp add: args_parse strip_strip)
  finally have a: "args (parse (args (parse raw_args))) = args (parse raw_args)" .
  from c have "MuxCommand.switches (parse (args (parse raw_args))) = []"
    by (simp only: switches_parse strip_switches_clean_arg)
  with a show ?thesis by blast
qed

theorem parse_without_slash_and_equals_witness:
  "CHR ''/'' \<notin> set ''  look here  ''
   \<and> CHR ''='' \<notin> set ''  look here  ''
   \<and> MuxCommand.switches (parse ''  look here  '') = []
   \<and> args (parse ''  look here  '') = ''look here''
   \<and> lhs (parse ''  look here  '') = ''look here''
   \<and> rhs (parse ''  look here  '') = None
   \<and> rhs (parse ''/f name1,name2 = val1, val2'') = Some ''val1, val2''
   \<and> rhslist (parse ''/f name1,name2 = val1, val2'') = [''val1'', ''val2'']"
proof -
  have h: "CHR ''/'' \<notin> set ''  look here  '' \<and> CHR ''='' \<notin> set ''  look here  ''"
    by simp
  from parse_without_slash_and_equals [of "''  look here  ''"] h
  have a: "MuxCommand.switches (parse ''  look here  '') = []
      \<and> args (parse ''  look here  '') = strip ''  look here  ''
      \<and> lhs (parse ''  look here  '') = args (parse ''  look here  '')
      \<and> rhs (parse ''  look here  '') = None"
    by blast
  have s: "strip ''  look here  '' = ''look here''"
    by code_simp
  have r: "rhs (parse ''/f name1,name2 = val1, val2'') = Some ''val1, val2''"
    by code_simp
  from parse_without_slash_and_equals [of "''/f name1,name2 = val1, val2''"] r
  have "rhslist (parse ''/f name1,name2 = val1, val2'') =
          map strip (split_on (CHR '','') ''val1, val2'')"
    by simp
  also have "\<dots> = [''val1'', ''val2'']"
    by code_simp
  finally have l: "rhslist (parse ''/f name1,name2 = val1, val2'') = [''val1'', ''val2'']" .
  from h a s r l show ?thesis by simp
qed

theorem switch_extraction_idempotent_witness:
  "MuxCommand.switches (parse ''/a /B x=y=z'') = [''a'', ''b'']
   \<and> args (parse ''/a /B x=y=z'') = ''x=y=z''
   \<and> MuxCommand.switches (parse ''x=y=z'') = []
   \<and> args (parse ''x=y=z'') = ''x=y=z''"
proof -
  have a: "MuxCommand.switches (parse ''/a /B x=y=z'') = [''a'', ''b'']"
    by code_simp
  have b: "args (parse ''/a /B x=y=z'') = ''x=y=z''"
    by code_simp
  from switch_extraction_idempotent [of "''/a /B x=y=z''"] a b show ?thesis
    by simp
qed

section \<open>Properties of the lifecycle\<close>

text \<open>
  Against C7 as stated: the pre-hook of the base class has the body \<open>pass\<close>; what it
  returns is \<open>None\<close>, which is not a boolean.
\<close>

theorem base_pre_hook_not_boolean:
  "\<not> is_bool (fst (Command_at_pre_cmd \<lparr>caller = ''Amy''\<rparr> example_world))"
  by (simp add: Command_at_pre_cmd_def is_bool_def)

text \<open>
  C7, as amended. The pre-hook \<open>at_pre_cmd\<close> of the base \<open>Command\<close> returns \<open>None\<close>, a
  value that counts as false, and leaves the state as it is; so a base command runs
  all four hooks and sends \<open>Command called!\<close>. For any command type, the dispatcher
  stops after the pre-hook, running no further hook, exactly when the value the
  pre-hook returned is true; otherwise \<open>parse\<close>, \<open>func\<close> and \<open>at_post_cmd\<close> all run, in
  this order. There is no other branch in the lifecycle.
\<close>

theorem pre_hook_is_the_only_abort:
  "Command_at_pre_cmd self w = (PyNone, w)
   \<and> \<not> truthy (fst (Command_at_pre_cmd self w))
   \<and> dispatch (base_hooks self) w =
       ([AtPreCmd, Parse, Func, AtPostCmd],
        w\<lparr>outbox := outbox w @ [(caller self, ''Command called!'')]\<rparr>)
   \<and> (truthy (fst (at_pre_cmd c w)) \<longrightarrow> dispatch c w = ([AtPreCmd], snd (at_pre_cmd c w)))
   \<and> (\<not> truthy (fst (at_pre_cmd c w)) \<longrightarrow>
        dispatch c w =
          ([AtPreCmd, Parse, Func, AtPostCmd],
           at_post_cmd c (func_hook c (parse_hook c (snd (at_pre_cmd c w))))))
   \<and> (fst (dispatch c w) = [AtPreCmd] \<longleftrightarrow> truthy (fst (at_pre_cmd c w)))"
proof -
  have a: "Command_at_pre_cmd self w = (PyNone, w)"
    by (simp add: Command_at_pre_cmd_def)
  have b: "\<not> truthy (fst (Command_at_pre_cmd self w))"
    by (simp add: a truthy_def)
  have d: "dispatch (base_hooks self) w =
       ([AtPreCmd, Parse, Func, AtPostCmd],
        w\<lparr>outbox := outbox w @ [(caller self, ''Command called!'')]\<rparr>)"
    by (simp add: dispatch_def base_hooks_def a truthy_def Command_parse_def Command_func_def
          Command_at_post_cmd_def)
  have e: "truthy (fst (at_pre_cmd c w)) \<longrightarrow> dispatch c w = ([AtPreCmd], snd (at_pre_cmd c w))"
    by (simp add: dispatch_def split_def)
  have f: "\<not> truthy (fst (at_pre_cmd c w)) \<longrightarrow>
        dispatch c w =
          ([AtPreCmd, Parse, Func, AtPostCmd],
           at_post_cmd c (func_hook c (parse_hook c (snd (at_pre_cmd c w)))))"
    by (simp add: dispatch_def split_def Let_def)
  have g: "fst (dispatch c w) = [AtPreCmd] \<longleftrightarrow> truthy (fst (at_pre_cmd c w))"
    by (simp add: dispatch_def split_def Let_def)
  from a b d e f g show ?thesis by blast
qed

theorem pre_hook_is_the_only_abort_witness:
  "truthy (fst (at_pre_cmd (cancelling_hooks \<lparr>caller = ''Amy''\<rparr>) example_world))
   \<and> dispatch (cancelling_hooks \<lparr>caller = ''Amy''\<rparr>) example_world = ([AtPreCmd], example_world)
   \<and> \<not> truthy (fst (at_pre_cmd (base_hooks \<lparr>caller = ''Amy''\<rparr>) example_world))
   \<and> dispatch (base_hooks \<lparr>caller = ''Amy''\<rparr>) example_world =
       ([AtPreCmd, Parse, Func, AtPostCmd],
        \<lparr>SESSIONS = example_sessions, outbox = [(''Amy'', ''Command called!'')]\<rparr>)"
proof -
  let ?c = "cancelling_hooks \<lparr>caller = ''Amy''\<rparr>"
  let ?b = "base_hooks \<lparr>caller = ''Amy''\<rparr>"
  have t: "truthy (fst (at_pre_cmd ?c example_world))"
    by (simp add: cancelling_hooks_def truthy_def)
  have s: "snd (at_pre_cmd ?c example_world) = example_world"
    by (simp add: cancelling_hooks_def)
  have n: "\<not> truthy (fst (at_pre_cmd ?b example_world))"
    by (simp add: base_hooks_def Command_at_pre_cmd_def truthy_def)
  have p: "at_post_cmd ?b (func_hook ?b (parse_hook ?b (snd (at_pre_cmd ?b example_world)))) =
           \<lparr>SESSIONS = example_sessions, outbox = [(''Amy'', ''Command called!'')]\<rparr>"
    by (simp add: base_hooks_def Command_at_pre_cmd_def Command_parse_def Command_func_def
          Command_at_post_cmd_def example_world_def)
  from pre_hook_is_the_only_abort [of "\<lparr>caller = ''Amy''\<rparr>" example_world ?c] t s
  have x: "dispatch ?c example_world = ([AtPreCmd], example_world)"
    by simp
  from pre_hook_is_the_only_abort [of "\<lparr>caller = ''Amy''\<rparr>" example_world ?b] n p
  have y: "dispatch ?b example_world =
       ([AtPreCmd, Parse, Func, AtPostCmd],
        \<lparr>SESSIONS = example_sessions, outbox = [(''Amy'', ''Command called!'')]\<rparr>)"
    by (simp add: example_world_def)
  from t x n y show ?thesis by blast
qed

end
